theory Spec2Isabelle
  imports Main "HOL-Library.AList" "HOL-Library.Multiset"
begin

section \<open>Python strings\<close>

text \<open>
  A Python \<^verbatim>\<open>str\<close> is a sequence of Unicode code points, so a string is a list of
  naturals. \<open>py\<close> turns an ASCII literal into such a string. A string literal of the
  logic cannot hold a backslash: \<open>raw\<close> builds a raw string from the pieces that the
  backslashes separate, so \<^verbatim>\<open>r'\.py\b'\<close> is \<open>raw ['''', ''.py'', ''b'']\<close>.
\<close>

type_synonym pystr = "nat list"

abbreviation py :: "string \<Rightarrow> pystr" where
  "py s \<equiv> map of_char s"

fun raw :: "string list \<Rightarrow> pystr" where
  "raw [] = []"
| "raw [s] = py s"
| "raw (s # t # ts) = py s @ [0x5C] @ raw (t # ts)"

text \<open>
  \<^verbatim>\<open>str.isspace\<close> for one code point, which is what \<^verbatim>\<open>str.strip()\<close> removes from
  both ends.
\<close>

definition isspace :: "nat \<Rightarrow> bool" where
  "isspace c \<longleftrightarrow>
     (0x09 \<le> c \<and> c \<le> 0x0D) \<or> (0x1C \<le> c \<and> c \<le> 0x20) \<or> c = 0x85 \<or> c = 0xA0 \<or>
     c = 0x1680 \<or> (0x2000 \<le> c \<and> c \<le> 0x200A) \<or> c = 0x2028 \<or> c = 0x2029 \<or>
     c = 0x202F \<or> c = 0x205F \<or> c = 0x3000"

definition strip :: "pystr \<Rightarrow> pystr" where
  "strip s = rev (dropWhile isspace (rev (dropWhile isspace s)))"

text \<open>\<^verbatim>\<open>s.split(sep)\<close> for a separator of one code point.\<close>

fun split :: "nat \<Rightarrow> pystr \<Rightarrow> pystr list" where
  "split sep [] = [[]]"
| "split sep (c # cs) =
     (if c = sep then [] # split sep cs
      else (case split sep cs of [] \<Rightarrow> [[c]] | l # ls \<Rightarrow> (c # l) # ls))"

text \<open>\<^verbatim>\<open>sep.join(xs)\<close>.\<close>

fun join :: "pystr \<Rightarrow> pystr list \<Rightarrow> pystr" where
  "join sep [] = []"
| "join sep [x] = x"
| "join sep (x # y # ys) = x @ sep @ join sep (y # ys)"

text \<open>\<^verbatim>\<open>str(n)\<close> for a non-negative integer, as an f-string formats it.\<close>

fun digits :: "nat \<Rightarrow> nat \<Rightarrow> pystr" where
  "digits 0 n = []"
| "digits (Suc fuel) n = (if n < 10 then [48 + n] else digits fuel (n div 10) @ [48 + n mod 10])"

definition str_of_nat :: "nat \<Rightarrow> pystr" where
  "str_of_nat n = digits (Suc n) n"

section \<open>Exceptions, external calls\<close>

text \<open>
  The exceptions are those of class \<^verbatim>\<open>Exception\<close>, the ones \<^verbatim>\<open>except Exception\<close>
  catches: the three that the interpreter raises in this code, and \<open>Raised msg\<close> for
  whatever an external call raises.
\<close>

datatype exn = AttributeError | TypeError | UnboundLocalError | Raised pystr

text \<open>
  The calls that leave the program are recorded in a trace: each \<^verbatim>\<open>re.findall\<close> with
  its pattern, each call of the language model with its prompt.
\<close>

datatype event = ReFindall pystr | LmCall pystr

text \<open>
  \<open>findall pattern code\<close> stands for
  \<^verbatim>\<open>re.findall(pattern, code, re.IGNORECASE | re.MULTILINE)\<close>: the list of the
  non-overlapping matches of the pattern in the code, letter case ignored. The language
  model \<^verbatim>\<open>lm(prompt)\<close> answers with a string or raises.
\<close>

type_synonym re_findall = "pystr \<Rightarrow> pystr \<Rightarrow> pystr list"
type_synonym lm = "pystr \<Rightarrow> exn + pystr"

section \<open>LanguageDetector\<close>

definition LANGUAGE_PATTERNS :: "(pystr \<times> pystr list) list" where
  "LANGUAGE_PATTERNS = [
    (py ''Python'', [
       raw ['''', ''bdef'', ''s+'', ''w+'', ''s*'', ''(''],
       raw ['''', ''bimport'', ''s+'', ''w+''],
       raw ['''', ''bfrom'', ''s+'', ''w+'', ''s+import''],
       raw ['''', ''bclass'', ''s+'', ''w+''],
       raw ['''', ''bif'', ''s+.*:''],
       raw ['''', ''bfor'', ''s+.*'', ''s+in'', ''s+''],
       raw ['''', ''bwhile'', ''s+.*:''],
       raw [''@'', ''w+''],
       raw ['''', ''bprint'', ''s*'', ''(''],
       raw ['''', ''.py'', ''b'']]),
    (py ''JavaScript'', [
       raw ['''', ''bfunction'', ''s+'', ''w+'', ''s*'', ''(''],
       raw ['''', ''bconst'', ''s+'', ''w+'', ''s*=''],
       raw ['''', ''blet'', ''s+'', ''w+'', ''s*=''],
       raw ['''', ''bvar'', ''s+'', ''w+'', ''s*=''],
       raw ['''', ''b=>'', ''s*{''],
       raw ['''', ''bconsole'', ''.log''],
       raw ['''', ''bdocument'', ''.getElementById''],
       raw ['''', ''brequire'', ''s*'', ''(''],
       raw ['''', ''.js'', ''b'']]),
    (py ''Java'', [
       raw ['''', ''bpublic'', ''s+class'', ''s+'', ''w+''],
       raw ['''', ''bprivate'', ''s+'', ''w+'', ''s+'', ''w+''],
       raw ['''', ''bpublic'', ''s+static'', ''s+void'', ''s+main''],
       raw ['''', ''bSystem'', ''.out'', ''.println''],
       raw ['''', ''bimport'', ''s+java'', ''.''],
       raw ['''', ''bextends'', ''s+'', ''w+''],
       raw ['''', ''bimplements'', ''s+'', ''w+''],
       raw [''@Override''],
       raw ['''', ''.java'', ''b'']]),
    (py ''C++'', [
       raw [''#include'', ''s*<.*>''],
       raw ['''', ''bint'', ''s+main'', ''s*'', ''(''],
       raw ['''', ''bstd::''],
       raw ['''', ''bcout'', ''s*<<''],
       raw ['''', ''bcin'', ''s*>>''],
       raw ['''', ''bnamespace'', ''s+'', ''w+''],
       raw ['''', ''.cpp'', ''b|'', ''.hpp'', ''b'']]),
    (py ''C#'', [
       raw ['''', ''busing'', ''s+'', ''w+;''],
       raw ['''', ''bnamespace'', ''s+'', ''w+''],
       raw ['''', ''bpublic'', ''s+class'', ''s+'', ''w+''],
       raw ['''', ''bConsole'', ''.WriteLine''],
       raw ['''', ''bstring'', ''s*'', ''[''],
       raw ['''', ''.cs'', ''b'']]),
    (py ''TypeScript'', [
       raw ['''', ''binterface'', ''s+'', ''w+''],
       raw ['''', ''btype'', ''s+'', ''w+'', ''s*=''],
       raw ['':'', ''s*'', ''w+'', ''s*=''],
       raw ['''', ''bexport'', ''s+interface''],
       raw ['''', ''.ts'', ''b|'', ''.tsx'', ''b'']]),
    (py ''Go'', [
       raw ['''', ''bpackage'', ''s+'', ''w+''],
       raw ['''', ''bfunc'', ''s+'', ''w+'', ''s*'', ''(''],
       raw ['''', ''bimport'', ''s+'', ''(''],
       raw ['''', ''bvar'', ''s+'', ''w+'', ''s+'', ''w+''],
       raw ['''', ''.go'', ''b'']]),
    (py ''Rust'', [
       raw ['''', ''bfn'', ''s+'', ''w+'', ''s*'', ''(''],
       raw ['''', ''blet'', ''s+mut'', ''s+'', ''w+''],
       raw ['''', ''buse'', ''s+'', ''w+''],
       raw ['''', ''bimpl'', ''s+'', ''w+''],
       raw ['''', ''.rs'', ''b'']])]"

text \<open>
  The inner loop of \<^verbatim>\<open>detect_language_regex\<close>:
  \<^verbatim>\<open>for pattern in patterns: score += len(re.findall(...))\<close>.
\<close>

fun score_patterns ::
  "re_findall \<Rightarrow> pystr \<Rightarrow> pystr list \<Rightarrow> nat \<times> event list \<Rightarrow> nat \<times> event list" where
  "score_patterns findall code [] st = st"
| "score_patterns findall code (pattern # patterns) (score, tr) =
     score_patterns findall code patterns
       (score + length (findall pattern code), tr @ [ReFindall pattern])"

text \<open>
  The outer loop, over \<^verbatim>\<open>LANGUAGE_PATTERNS.items()\<close>. The dictionary \<^verbatim>\<open>scores\<close> keeps
  its keys in the order of their first insertion, which is what \<open>AList.update\<close> does
  on an association list.
\<close>

fun score_languages ::
  "re_findall \<Rightarrow> pystr \<Rightarrow> (pystr \<times> pystr list) list \<Rightarrow>
     (pystr \<times> nat) list \<times> event list \<Rightarrow> (pystr \<times> nat) list \<times> event list" where
  "score_languages findall code [] st = st"
| "score_languages findall code ((language, patterns) # rest) (scores, tr) =
     (case score_patterns findall code patterns (0, tr) of
        (score, tr') \<Rightarrow>
          score_languages findall code rest (AList.update language score scores, tr'))"

text \<open>
  \<^verbatim>\<open>max(xs, key = f)\<close>: the first item is the candidate, and a later item replaces it
  only when its key is greater. On no item Python raises \<^verbatim>\<open>ValueError\<close>, here \<open>None\<close>.
\<close>

fun max_key :: "('a \<Rightarrow> nat) \<Rightarrow> 'a list \<Rightarrow> 'a option" where
  "max_key f [] = None"
| "max_key f (x # xs) = Some (fold (\<lambda>y m. if f m < f y then y else m) xs x)"

text \<open>
  \<^verbatim>\<open>detect_language_regex\<close> is a class method: its first parameter is the class, of
  which it reads \<^verbatim>\<open>LANGUAGE_PATTERNS\<close> only. \<^verbatim>\<open>max(scores.values())\<close> is the greatest
  score; \<^verbatim>\<open>max(scores, key = scores.get)\<close> runs over the keys in order, each with its
  own score as key, so it is \<open>max_key snd\<close> on the items.
\<close>

definition detect_language_regex :: "re_findall \<Rightarrow> pystr \<Rightarrow> pystr \<times> event list" where
  "detect_language_regex findall code =
     (if code = [] \<or> strip code = [] then (py ''Unknown'', [])
      else
        (case score_languages findall code LANGUAGE_PATTERNS ([], []) of
           (scores, tr) \<Rightarrow>
             (case max_key id (map snd scores) of
                None \<Rightarrow> (py ''Unknown'', tr)
              | Some m \<Rightarrow>
                  if m = 0 then (py ''Unknown'', tr)
                  else
                    (case max_key snd scores of
                       None \<Rightarrow> (py ''Unknown'', tr)
                     | Some best \<Rightarrow> (fst best, tr)))))"

text \<open>
  An object, as far as this code reads it: the attribute \<^verbatim>\<open>lm\<close>, bound or not. The class
  \<^verbatim>\<open>LanguageDetector\<close> binds \<^verbatim>\<open>LANGUAGE_PATTERNS\<close> and its methods in its body, and no
  \<^verbatim>\<open>lm\<close>; \<^verbatim>\<open>__init__\<close> binds \<^verbatim>\<open>lm\<close> on the instance (\<open>None\<close> is Python's \<^verbatim>\<open>None\<close>, the
  default of \<^verbatim>\<open>lm_instance\<close>). Reading an attribute that is not bound raises
  \<^verbatim>\<open>AttributeError\<close>.
\<close>

datatype 'a binding = Unbound | Bound 'a

record pyobject =
  attr_lm :: "lm option binding"

definition LanguageDetector_class :: pyobject where
  "LanguageDetector_class = \<lparr>attr_lm = Unbound\<rparr>"

definition LanguageDetector_init :: "lm option \<Rightarrow> pyobject" where
  "LanguageDetector_init lm_instance = \<lparr>attr_lm = Bound lm_instance\<rparr>"

definition getattr_lm :: "pyobject \<Rightarrow> exn + lm option" where
  "getattr_lm obj = (case attr_lm obj of Unbound \<Rightarrow> Inl AttributeError | Bound v \<Rightarrow> Inr v)"

definition llm_prompt :: "pystr \<Rightarrow> pystr" where
  "llm_prompt code =
     py ''\<newline>            Analyze the following code snippet and identify the programming language.\<newline>'' @
     py ''            Respond with only the language name (e.g., '' @
     [0x22] @ py ''Python'' @ [0x22] @ py '', '' @ [0x22] @ py ''JavaScript'' @ [0x22] @ py '', '' @
     [0x22] @ py ''Java'' @ [0x22] @ py '', '' @ [0x22] @ py ''C++'' @ [0x22] @ py '', '' @
     [0x22] @ py ''C#'' @ [0x22] @ py '', '' @ [0x22] @ py ''TypeScript'' @ [0x22] @ py '', '' @
     [0x22] @ py ''Go'' @ [0x22] @ py '', '' @ [0x22] @ py ''Rust'' @ [0x22] @ py '').\<newline>'' @
     py ''            If you cannot determine the language, respond with '' @
     [0x22] @ py ''Unknown'' @ [0x22] @ py ''.\<newline>'' @
     py ''            Code:\<newline>            ```\<newline>            '' @
     code @
     py ''\<newline>            ```\<newline>            ''"

text \<open>
  \<^verbatim>\<open>detect_language_llm\<close> is declared a class method too, so the object it reads
  \<^verbatim>\<open>lm\<close> from is the one its caller binds to its first parameter. The first test stands
  before the \<^verbatim>\<open>try\<close>; what the call of the model raises is caught and gives
  \<^verbatim>\<open>"Unknown"\<close>.
\<close>

definition detect_language_llm :: "pyobject \<Rightarrow> pystr \<Rightarrow> (exn + pystr) \<times> event list" where
  "detect_language_llm self code =
     (case getattr_lm self of
        Inl e \<Rightarrow> (Inl e, [])
      | Inr None \<Rightarrow> (Inr (py ''Unknown''), [])
      | Inr (Some the_lm) \<Rightarrow>
          (let prompt = llm_prompt code in
           case the_lm prompt of
             Inl e \<Rightarrow> (Inr (py ''Unknown''), [LmCall prompt])
           | Inr response \<Rightarrow>
               (let language = strip response;
                    known_languages = map fst LANGUAGE_PATTERNS @ [py ''Unknown'']
                in (if language \<in> set known_languages then Inr language
                    else Inr (py ''Unknown''), [LmCall prompt]))))"

text \<open>
  \<^verbatim>\<open>detect_language\<close> is an instance method. Both of its calls go to class methods, which
  Python calls with the class of the instance as first argument.
\<close>

definition detect_language ::
  "pyobject \<Rightarrow> re_findall \<Rightarrow> pystr \<Rightarrow> (exn + pystr) \<times> event list" where
  "detect_language self findall code =
     (case detect_language_regex findall code of
        (language, tr) \<Rightarrow>
          if language = py ''Unknown'' then
            (case getattr_lm self of
               Inl e \<Rightarrow> (Inl e, tr)
             | Inr None \<Rightarrow> (Inr language, tr)
             | Inr (Some the_lm) \<Rightarrow>
                 (case detect_language_llm LanguageDetector_class code of
                    (r, tr') \<Rightarrow> (r, tr @ tr')))
          else (Inr language, tr))"

section \<open>EmpathyAnalyzer\<close>

text \<open>
  The three modules of the analyzer are calls to the language model. A model may answer the
  same request differently each time, so the two modules that run once per comment take
  the number of the call as well. The values they return are the output fields of their
  signatures; \<^verbatim>\<open>resources\<close> is \<^verbatim>\<open>None\<close>, a string or a list of strings.
\<close>

record empathy_result =
  result_positive_rephrasing :: pystr
  result_why_explanation :: pystr
  result_suggested_improvement :: pystr
  result_severity_level :: pystr

datatype resources = ResNone | ResStr pystr | ResList "pystr list"

record EmpathyAnalyzer =
  empathy_transformer :: "nat \<Rightarrow> pystr \<Rightarrow> pystr \<Rightarrow> pystr \<Rightarrow> exn + empathy_result"
  resource_finder :: "nat \<Rightarrow> pystr \<Rightarrow> pystr \<Rightarrow> exn + resources"
  summary_generator :: "pystr \<Rightarrow> pystr \<Rightarrow> pystr \<Rightarrow> exn + pystr"

text \<open>
  The dictionaries of feedback. The four texts are always there when the renderer reads
  them with \<^verbatim>\<open>comment[...]\<close>; \<^verbatim>\<open>severity\<close> and \<^verbatim>\<open>resources\<close> are read with
  \<^verbatim>\<open>comment.get\<close>, and \<open>None\<close> is a dictionary without the key.
\<close>

record feedback =
  positive_rephrasing :: pystr
  explanation :: pystr
  suggested_improvement :: pystr
  severity :: "pystr option"
  resources :: "resources option"

record comment = feedback +
  original :: pystr

text \<open>
  The body of the \<^verbatim>\<open>try\<close> in \<^verbatim>\<open>forward\<close>, and \<^verbatim>\<open>forward\<close>: the handler logs the
  exception and the function ends without a \<^verbatim>\<open>return\<close>, which gives \<^verbatim>\<open>None\<close>.
\<close>

definition forward_try :: "EmpathyAnalyzer \<Rightarrow> nat \<Rightarrow> pystr \<Rightarrow> pystr \<Rightarrow> pystr \<Rightarrow> exn + feedback" where
  "forward_try self n code_snippet comment language =
     (case empathy_transformer self n code_snippet comment
             (language @ py '' best practices and clean code principles'') of
        Inl e \<Rightarrow> Inl e
      | Inr result \<Rightarrow>
          (case resource_finder self n (take 100 (result_why_explanation result)) language of
             Inl e \<Rightarrow> Inl e
           | Inr found \<Rightarrow>
               Inr \<lparr>positive_rephrasing = result_positive_rephrasing result,
                    explanation = result_why_explanation result,
                    suggested_improvement = result_suggested_improvement result,
                    severity = Some (result_severity_level result),
                    resources = Some found\<rparr>))"

definition forward ::
  "EmpathyAnalyzer \<Rightarrow> nat \<Rightarrow> pystr \<Rightarrow> pystr \<Rightarrow> pystr \<Rightarrow> exn + feedback option" where
  "forward self n code_snippet comment language =
     (case forward_try self n code_snippet comment language of
        Inr d \<Rightarrow> Inr (Some d)
      | Inl e \<Rightarrow> Inr None)"

section \<open>EmpatheticCodeReviewer\<close>

record EmpatheticCodeReviewer =
  lm :: lm
  analyzer :: EmpathyAnalyzer
  language_detector :: pyobject

definition EmpatheticCodeReviewer_init :: "lm \<Rightarrow> EmpathyAnalyzer \<Rightarrow> EmpatheticCodeReviewer" where
  "EmpatheticCodeReviewer_init the_lm the_analyzer =
     \<lparr>lm = the_lm, analyzer = the_analyzer,
      language_detector = LanguageDetector_init (Some the_lm)\<rparr>"

record input_data =
  code_snippet :: pystr
  review_comments :: "pystr list"

text \<open>\<^verbatim>\<open>{ "original": comment, **result }\<close>: unpacking \<^verbatim>\<open>None\<close> raises \<^verbatim>\<open>TypeError\<close>.\<close>

definition unpack :: "pystr \<Rightarrow> feedback option \<Rightarrow> exn + comment" where
  "unpack c result =
     (case result of
        None \<Rightarrow> Inl TypeError
      | Some d \<Rightarrow>
          Inr \<lparr>positive_rephrasing = positive_rephrasing d, explanation = explanation d,
               suggested_improvement = suggested_improvement d, severity = severity d,
               resources = resources d, original = c\<rparr>)"

definition fallback :: "pystr \<Rightarrow> comment" where
  "fallback c =
     \<lparr>positive_rephrasing = py ''Let's look at improving this aspect: '' @ c,
      explanation = py ''This change will improve code quality.'',
      suggested_improvement = py ''# See suggested improvement in code'',
      severity = Some (py ''MEDIUM''),
      resources = Some (ResList []),
      original = c\<rparr>"

text \<open>
  One turn of the loop over the comments: the \<^verbatim>\<open>try\<close> with its handler. The result is
  the exception the handler caught, if any, and the dictionary appended to
  \<^verbatim>\<open>transformed_comments\<close>.
\<close>

definition transform_comment ::
  "EmpathyAnalyzer \<Rightarrow> nat \<Rightarrow> pystr \<Rightarrow> pystr \<Rightarrow> pystr \<Rightarrow> exn option \<times> comment" where
  "transform_comment the_analyzer i code c language =
     (case (case forward the_analyzer i code c language of
              Inl e \<Rightarrow> Inl e
            | Inr result \<Rightarrow> unpack c result) of
        Inr tc \<Rightarrow> (None, tc)
      | Inl e \<Rightarrow> (Some e, fallback c))"

definition transform_comments ::
  "EmpathyAnalyzer \<Rightarrow> pystr \<Rightarrow> pystr list \<Rightarrow> pystr \<Rightarrow> comment list" where
  "transform_comments the_analyzer code cs language =
     fold (\<lambda>(i, c) transformed_comments.
             transformed_comments @ [snd (transform_comment the_analyzer i code c language)])
       (enumerate 0 cs) []"

section \<open>The report\<close>

text \<open>\<^verbatim>\<open>d.get(key, default)\<close> on a dictionary written as a display.\<close>

definition dict_get :: "('k \<times> 'v) list \<Rightarrow> 'k \<Rightarrow> 'v \<Rightarrow> 'v" where
  "dict_get d k dflt = (case map_of d k of None \<Rightarrow> dflt | Some v \<Rightarrow> v)"

definition lang_map :: "(pystr \<times> pystr) list" where
  "lang_map =
     [(py ''Python'', py ''python''), (py ''JavaScript'', py ''javascript''),
      (py ''Java'', py ''java''), (py ''C++'', py ''cpp''), (py ''C#'', py ''csharp''),
      (py ''TypeScript'', py ''typescript''), (py ''Go'', py ''go''), (py ''Rust'', py ''rust''),
      (py ''Unknown'', py ''text'')]"

definition severity_order :: "(pystr \<times> nat) list" where
  "severity_order = [(py ''HIGH'', 0), (py ''MEDIUM'', 1), (py ''LOW'', 2)]"

definition severity_emoji_map :: "(pystr \<times> pystr) list" where
  "severity_emoji_map =
     [(py ''HIGH'', [0x11F, 0x178, 0x201D, 0xB4]), (py ''MEDIUM'', [0x11F, 0x178, 0x178, 0xA1]),
      (py ''LOW'', [0x11F, 0x178, 0x178, 0xA2])]"

text \<open>\<^verbatim>\<open>x.get("severity", "MEDIUM")\<close>, and the key of the sort.\<close>

definition get_severity :: "comment \<Rightarrow> pystr" where
  "get_severity x = (case severity x of None \<Rightarrow> py ''MEDIUM'' | Some s \<Rightarrow> s)"

definition sort_rank :: "comment \<Rightarrow> nat" where
  "sort_rank x = dict_get severity_order (get_severity x) 1"

text \<open>The truth value of \<^verbatim>\<open>comment.get("resources", [])\<close>.\<close>

definition get_resources :: "comment \<Rightarrow> resources" where
  "get_resources x = (case resources x of None \<Rightarrow> ResList [] | Some r \<Rightarrow> r)"

fun truthy :: "resources \<Rightarrow> bool" where
  "truthy ResNone = False"
| "truthy (ResStr s) = (s \<noteq> [])"
| "truthy (ResList rs) = (rs \<noteq> [])"

text \<open>The lines of the loop body that handle the resources: they extend the report.\<close>

definition add_resources :: "comment \<Rightarrow> pystr \<Rightarrow> pystr" where
  "add_resources x report =
     (let found = get_resources x in
      if truthy found then
        (let report = report @ py ''**'' @ [0x11F, 0x178, 0x201C, 0x2013] @
                        py '' Learning Resources:**\<newline>'';
             report =
               (case found of
                  ResStr s \<Rightarrow>
                    (let resource_lines =
                           map strip (filter (\<lambda>line. strip line \<noteq> []) (split 10 s))
                     in fold (\<lambda>line report. report @ py ''- '' @ line @ py ''\<newline>'')
                          resource_lines report)
                | ResList rs \<Rightarrow>
                    fold (\<lambda>resource report.
                            if resource \<noteq> [] \<and> strip resource \<noteq> []
                            then report @ py ''- '' @ strip resource @ py ''\<newline>''
                            else report)
                      rs report
                | ResNone \<Rightarrow> report)
         in report @ py ''\<newline>'')
      else report)"

text \<open>The body of the loop over \<^verbatim>\<open>enumerate(comments, 1)\<close>.\<close>

definition add_comment :: "pystr \<Rightarrow> nat \<times> comment \<Rightarrow> pystr \<Rightarrow> pystr" where
  "add_comment code_lang ix report =
     (case ix of
        (i, x) \<Rightarrow>
          (let severity_emoji =
                 dict_get severity_emoji_map (get_severity x) [0x11F, 0x178, 0x178, 0xA1];
               report = report @ py ''---\<newline>\<newline>'';
               report = report @ py ''### '' @ severity_emoji @ py '' Analysis of Comment #'' @
                          str_of_nat i @ py '': '' @ [0x22] @ original x @ [0x22] @
                          py ''\<newline>\<newline>'';
               report = report @ py ''**'' @ [0xE2, 0x153, 0xA8] @
                          py '' Positive Rephrasing:**\<newline>'' @ positive_rephrasing x @
                          py ''\<newline>\<newline>'';
               report = report @ py ''**'' @ [0x11F, 0x178, 0x201C, 0x161] @
                          py '' The 'Why':**\<newline>'' @ explanation x @ py ''\<newline>\<newline>'';
               report = report @ py ''**'' @ [0x11F, 0x178, 0x201D, 0xA7] @
                          py '' Suggested Improvement:**\<newline>```'' @ code_lang @
                          py ''\<newline>'' @ suggested_improvement x @
                          py ''\<newline>```\<newline>\<newline>''
           in add_resources x report))"

text \<open>
  \<^verbatim>\<open>generate_markdown_report\<close>. \<^verbatim>\<open>comments.sort(key = ...)\<close> sorts the caller's list in
  place, in ascending order of the key and keeping the order of items with equal keys,
  so the list as the call leaves it is returned beside the report.
\<close>

definition generate_markdown_report ::
  "pystr \<Rightarrow> comment list \<Rightarrow> pystr \<Rightarrow> pystr \<Rightarrow> pystr \<times> comment list" where
  "generate_markdown_report code comments summary language =
     (let report = py ''# '' @ [0x11F, 0x178, 0x152, 0x178] @
                     py '' Code Review Feedback Report\<newline>\<newline>'';
          report = report @ py ''**Programming Language Detected:** '' @ language @
                     py ''\<newline>\<newline>'';
          report = report @ py ''## '' @ [0x11F, 0x178, 0x201C] @
                     py '' Original Code\<newline>\<newline>'';
          code_lang = dict_get lang_map language (py ''text'');
          report = report @ py ''```'' @ code_lang @ py ''\<newline>'' @ code @
                     py ''\<newline>```\<newline>\<newline>'';
          report = report @ py ''## '' @ [0x11F, 0x178, 0x2019, 0xA1] @
                     py '' Detailed Feedback\<newline>\<newline>'';
          comments = sort_key sort_rank comments;
          report = fold (add_comment code_lang) (enumerate 1 comments) report;
          report = report @ py ''---\<newline>\<newline>'';
          report = report @ py ''## '' @ [0x11F, 0x178, 0xAF] @
                     py '' Overall Summary\<newline>\<newline>'';
          report = report @ summary @ py ''\<newline>\<newline>'';
          report = report @ py ''---\<newline>\<newline>'';
          report = report @
            py ''*Remember: Every expert was once a beginner. Keep coding, keep learning, '' @
            py ''and keep growing! '' @ [0x11F, 0x178, 0x161, 0x20AC] @ py ''*\<newline>''
      in (report, comments))"

text \<open>
  \<^verbatim>\<open>process_review\<close>. The local variable \<^verbatim>\<open>summary\<close> is bound in the \<^verbatim>\<open>try\<close> only; the
  handler logs and binds nothing, and reading a local variable that is not bound raises
  \<^verbatim>\<open>UnboundLocalError\<close>.
\<close>

definition process_review ::
  "EmpatheticCodeReviewer \<Rightarrow> re_findall \<Rightarrow> input_data \<Rightarrow> exn + pystr" where
  "process_review self findall inp =
     (case fst (detect_language (language_detector self) findall (code_snippet inp)) of
        Inl e \<Rightarrow> Inl e
      | Inr language \<Rightarrow>
          (let transformed_comments =
                 transform_comments (analyzer self) (code_snippet inp) (review_comments inp)
                   language;
               all_feedback =
                 join (py ''\<newline>'')
                   (map (\<lambda>tc. py ''- '' @ positive_rephrasing tc) transformed_comments);
               summary =
                 (case summary_generator (analyzer self) (code_snippet inp) all_feedback
                         language of
                    Inr s \<Rightarrow> Bound s
                  | Inl e \<Rightarrow> Unbound)
           in case summary of
                Unbound \<Rightarrow> Inl UnboundLocalError
              | Bound s \<Rightarrow>
                  Inr (fst (generate_markdown_report (code_snippet inp) transformed_comments
                              s language))))"

section \<open>Notions of the specification\<close>

text \<open>
  The score of a language in the words of the specification: the sum, over the patterns
  of the language, of the number of matches in the code.
\<close>

definition language_score :: "re_findall \<Rightarrow> pystr \<Rightarrow> pystr list \<Rightarrow> nat" where
  "language_score findall code patterns = (\<Sum>p\<leftarrow>patterns. length (findall p code))"

text \<open>
  The parts of a report: what stands before the sections of feedback, the section of one
  comment (what one turn of the loop adds to the report), the sections of a list of
  comments in the order given, and what stands after them.
\<close>

definition report_head :: "pystr \<Rightarrow> pystr \<Rightarrow> pystr" where
  "report_head code language =
     py ''# '' @ [0x11F, 0x178, 0x152, 0x178] @ py '' Code Review Feedback Report\<newline>\<newline>'' @
     py ''**Programming Language Detected:** '' @ language @ py ''\<newline>\<newline>'' @
     py ''## '' @ [0x11F, 0x178, 0x201C] @ py '' Original Code\<newline>\<newline>'' @
     py ''```'' @ dict_get lang_map language (py ''text'') @ py ''\<newline>'' @ code @
     py ''\<newline>```\<newline>\<newline>'' @
     py ''## '' @ [0x11F, 0x178, 0x2019, 0xA1] @ py '' Detailed Feedback\<newline>\<newline>''"

definition comment_section :: "pystr \<Rightarrow> nat \<Rightarrow> comment \<Rightarrow> pystr" where
  "comment_section code_lang i x = add_comment code_lang (i, x) []"

definition feedback_sections :: "pystr \<Rightarrow> comment list \<Rightarrow> pystr list" where
  "feedback_sections language comments =
     map (\<lambda>(i, x). comment_section (dict_get lang_map language (py ''text'')) i x)
       (enumerate 1 comments)"

definition report_tail :: "pystr \<Rightarrow> pystr" where
  "report_tail summary =
     py ''---\<newline>\<newline>'' @
     py ''## '' @ [0x11F, 0x178, 0xAF] @ py '' Overall Summary\<newline>\<newline>'' @
     summary @ py ''\<newline>\<newline>'' @
     py ''---\<newline>\<newline>'' @
     py ''*Remember: Every expert was once a beginner. Keep coding, keep learning, '' @
     py ''and keep growing! '' @ [0x11F, 0x178, 0x161, 0x20AC] @ py ''*\<newline>''"

text \<open>
  The bullets of a list of items: one for each item whose trimmed text is not empty,
  holding the trimmed text.
\<close>

definition bullets :: "pystr list \<Rightarrow> pystr" where
  "bullets items =
     concat (map (\<lambda>item. py ''- '' @ strip item @ py ''\<newline>'')
               (filter (\<lambda>item. strip item \<noteq> []) items))"

definition resources_header :: pystr where
  "resources_header = py ''**'' @ [0x11F, 0x178, 0x201C, 0x2013] @ py '' Learning Resources:**\<newline>''"

text \<open>
  Reading the code back from a report. The repository has no reader of its reports; this
  one follows the words of the specification, "re-parsing the first fenced code block":
  the block opens at the first line that starts with three backquotes and holds the lines
  after it, up to the next line that starts with three backquotes.
\<close>

definition is_fence :: "pystr \<Rightarrow> bool" where
  "is_fence line \<longleftrightarrow> take 3 line = py ''```''"

definition first_fenced_block :: "pystr \<Rightarrow> pystr option" where
  "first_fenced_block report =
     (case dropWhile (\<lambda>line. \<not> is_fence line) (split 10 report) of
        [] \<Rightarrow> None
      | opening # following \<Rightarrow>
          if list_ex is_fence following
          then Some (join (py ''\<newline>'') (takeWhile (\<lambda>line. \<not> is_fence line) following))
          else None)"

section \<open>Concrete inputs\<close>

text \<open>
  A snippet that only the pattern \<^verbatim>\<open>\bimport\s+\w+\<close> of Python matches, once, and the
  answer of \<^verbatim>\<open>re.findall\<close> on it; a text that no pattern matches; a language model that
  answers \<^verbatim>\<open>Python\<close>; an analyzer whose transformer fails on the second comment (call 1)
  and whose summary succeeds, and one whose summary fails.
\<close>

definition import_os :: pystr where
  "import_os = py ''import os''"

definition findall_import_os :: re_findall where
  "findall_import_os pattern code =
     (if pattern = raw ['''', ''bimport'', ''s+'', ''w+''] \<and> code = py ''import os''
      then [py ''import os''] else [])"

definition findall_nothing :: re_findall where
  "findall_nothing pattern code = []"

definition lm_python :: lm where
  "lm_python prompt = Inr (py ''Python'')"

definition transformer_ok :: "nat \<Rightarrow> pystr \<Rightarrow> pystr \<Rightarrow> pystr \<Rightarrow> exn + empathy_result" where
  "transformer_ok n code c context =
     (if n = 1 then Inl (Raised (py ''timeout''))
      else Inr \<lparr>result_positive_rephrasing = py ''Nice: '' @ c,
                result_why_explanation = py ''Because.'',
                result_suggested_improvement = py ''pass'',
                result_severity_level = (if n = 0 then py ''LOW'' else py ''HIGH'')\<rparr>)"

definition finder_ok :: "nat \<Rightarrow> pystr \<Rightarrow> pystr \<Rightarrow> exn + resources" where
  "finder_ok n topic language = Inr (ResStr (py ''docs\<newline> \<newline>pep8''))"

definition analyzer_ok :: EmpathyAnalyzer where
  "analyzer_ok =
     \<lparr>empathy_transformer = transformer_ok, resource_finder = finder_ok,
      summary_generator = (\<lambda>code all_feedback language. Inr (py ''Well done.''))\<rparr>"

definition analyzer_no_summary :: EmpathyAnalyzer where
  "analyzer_no_summary =
     \<lparr>empathy_transformer = transformer_ok, resource_finder = finder_ok,
      summary_generator = (\<lambda>code all_feedback language. Inl (Raised (py ''timeout'')))\<rparr>"

definition three_comments :: "pystr list" where
  "three_comments = [py ''slow'', py ''bad name'', py ''redundant'']"

definition reviewer_ok :: EmpatheticCodeReviewer where
  "reviewer_ok = EmpatheticCodeReviewer_init lm_python analyzer_ok"

definition reviewer_no_summary :: EmpatheticCodeReviewer where
  "reviewer_no_summary = EmpatheticCodeReviewer_init lm_python analyzer_no_summary"

definition input_three :: input_data where
  "input_three = \<lparr>code_snippet = import_os, review_comments = three_comments\<rparr>"

text \<open>
  A comment with a given severity and original text and nothing else, and the four
  comments of the example of the specification, with severities LOW, HIGH, MEDIUM, HIGH.
\<close>

definition bare_comment :: "pystr \<Rightarrow> pystr \<Rightarrow> comment" where
  "bare_comment sev orig =
     \<lparr>positive_rephrasing = [], explanation = [], suggested_improvement = [],
      severity = Some sev, resources = None, original = orig\<rparr>"

definition four_comments :: "comment list" where
  "four_comments =
     [bare_comment (py ''LOW'') (py ''a''), bare_comment (py ''HIGH'') (py ''b''),
      bare_comment (py ''MEDIUM'') (py ''c''), bare_comment (py ''HIGH'') (py ''d'')]"

text \<open>
  A closing fence followed by the headings that the report puts after the code, up to
  the summary.
\<close>

definition fence_and_headings :: pystr where
  "fence_and_headings =
     py ''\<newline>```\<newline>\<newline>## '' @ [0x11F, 0x178, 0x2019, 0xA1] @ py '' Detailed Feedback\<newline>\<newline>'' @
     py ''---\<newline>\<newline>## '' @ [0x11F, 0x178, 0xAF] @ py '' Overall Summary\<newline>\<newline>''"

text \<open>
  The text of one section of feedback, written out from the fields of its record: the
  rule, the heading with the mark of the severity, the number and the quoted original
  comment, the rephrasing, the explanation, the suggested improvement in a fence, and
  the learning resources when there are any.
\<close>

definition severity_mark :: "comment \<Rightarrow> pystr" where
  "severity_mark x =
     (if get_severity x = py ''HIGH'' then [0x11F, 0x178, 0x201D, 0xB4]
      else if get_severity x = py ''LOW'' then [0x11F, 0x178, 0x178, 0xA2]
      else [0x11F, 0x178, 0x178, 0xA1])"

definition resources_text :: "comment \<Rightarrow> pystr" where
  "resources_text x =
     (case get_resources x of
        ResNone \<Rightarrow> []
      | ResStr s \<Rightarrow>
          if s = [] then [] else resources_header @ bullets (split 10 s) @ py ''\<newline>''
      | ResList rs \<Rightarrow>
          if rs = [] then [] else resources_header @ bullets rs @ py ''\<newline>'')"

definition section_text :: "pystr \<Rightarrow> nat \<Rightarrow> comment \<Rightarrow> pystr" where
  "section_text code_lang i x =
     py ''---\<newline>\<newline>'' @
     py ''### '' @ severity_mark x @ py '' Analysis of Comment #'' @ str_of_nat i @
     py '': '' @ [0x22] @ original x @ [0x22] @ py ''\<newline>\<newline>'' @
     py ''**'' @ [0xE2, 0x153, 0xA8] @ py '' Positive Rephrasing:**\<newline>'' @
     positive_rephrasing x @ py ''\<newline>\<newline>'' @
     py ''**'' @ [0x11F, 0x178, 0x201C, 0x161] @ py '' The 'Why':**\<newline>'' @
     explanation x @ py ''\<newline>\<newline>'' @
     py ''**'' @ [0x11F, 0x178, 0x201D, 0xA7] @ py '' Suggested Improvement:**\<newline>```'' @
     code_lang @ py ''\<newline>'' @ suggested_improvement x @ py ''\<newline>```\<newline>\<newline>'' @
     resources_text x"

section \<open>Scoring and the first maximum\<close>

lemma score_patterns_eq:
  "score_patterns findall code ps (s, tr) =
     (s + language_score findall code ps, tr @ map ReFindall ps)"
  by (induction ps arbitrary: s tr) (simp_all add: language_score_def)

lemma update_fresh: "k \<notin> fst ` set al \<Longrightarrow> AList.update k v al = al @ [(k, v)]"
  by (induction al) auto

lemma score_languages_eq:
  "distinct (map fst langs) \<Longrightarrow> fst ` set langs \<inter> fst ` set scores = {} \<Longrightarrow>
   score_languages findall code langs (scores, tr) =
     (scores @ map (\<lambda>(l, ps). (l, language_score findall code ps)) langs,
      tr @ concat (map (\<lambda>(l, ps). map ReFindall ps) langs))"
proof (induction langs arbitrary: scores tr)
  case Nil
  then show ?case by simp
next
  case (Cons a langs)
  obtain l ps where a: "a = (l, ps)" by (cases a)
  from Cons.prems have fresh: "l \<notin> fst ` set scores" and d: "distinct (map fst langs)"
    and l: "l \<notin> fst ` set langs" and disj: "fst ` set langs \<inter> fst ` set scores = {}"
    by (auto simp: a)
  have "fst ` set langs \<inter> fst ` set (scores @ [(l, language_score findall code ps)]) = {}"
    using l disj by auto
  from Cons.IH[OF d this] show ?case
    by (simp add: a score_patterns_eq update_fresh[OF fresh])
qed

lemma fold_max_first:
  "fold (\<lambda>y m. if f m < f y then y else m) ys m = b \<Longrightarrow>
   \<exists>us vs. m # ys = us @ b # vs \<and> (\<forall>u\<in>set us. f u < f b) \<and> (\<forall>v\<in>set vs. f v \<le> f b)"
  for f :: "'a \<Rightarrow> nat"
proof (induction ys arbitrary: m)
  case Nil
  then show ?case by (intro exI[of _ "[]"]) simp
next
  case (Cons y ys)
  show ?case
  proof (cases "f m < f y")
    case True
    with Cons.prems have "fold (\<lambda>y m. if f m < f y then y else m) ys y = b" by simp
    from Cons.IH[OF this] obtain us vs where e: "y # ys = us @ b # vs"
      and u: "\<forall>u\<in>set us. f u < f b" and v: "\<forall>v\<in>set vs. f v \<le> f b"
      by blast
    have "f y \<le> f b"
    proof (cases us)
      case Nil
      with e show ?thesis by simp
    next
      case (Cons u' us')
      with e u show ?thesis by auto
    qed
    with True have "f m < f b" by simp
    with e u v show ?thesis
      by (intro exI[of _ "m # us"] exI[of _ vs]) simp
  next
    case False
    with Cons.prems have "fold (\<lambda>y m. if f m < f y then y else m) ys m = b" by simp
    from Cons.IH[OF this] obtain us vs where e: "m # ys = us @ b # vs"
      and u: "\<forall>u\<in>set us. f u < f b" and v: "\<forall>v\<in>set vs. f v \<le> f b"
      by blast
    show ?thesis
    proof (cases us)
      case Nil
      with e have "b = m" "vs = ys" by simp_all
      with False v show ?thesis
        by (intro exI[of _ "[]"] exI[of _ "y # ys"]) auto
    next
      case (Cons u' us')
      with e have m: "u' = m" and ys: "ys = us' @ b # vs" by simp_all
      from u Cons m have "f m < f b" by simp
      with False have "f y < f b" by simp
      with u v Cons m ys show ?thesis
        by (intro exI[of _ "m # y # us'"] exI[of _ vs]) auto
    qed
  qed
qed

lemma max_key_first:
  assumes "max_key f xs = Some b"
  shows "\<exists>us vs. xs = us @ b # vs \<and> (\<forall>u\<in>set us. f u < f b) \<and> (\<forall>v\<in>set vs. f v \<le> f b)"
proof (cases xs)
  case Nil
  with assms show ?thesis by simp
next
  case (Cons x ys)
  with assms have "fold (\<lambda>y m. if f m < f y then y else m) ys x = b" by simp
  from fold_max_first[OF this] show ?thesis unfolding Cons .
qed

lemma max_key_Some: "xs \<noteq> [] \<Longrightarrow> \<exists>b. max_key f xs = Some b"
  by (cases xs) simp_all

lemma distinct_languages: "distinct (map fst LANGUAGE_PATTERNS)"
  by (simp add: LANGUAGE_PATTERNS_def)

lemma languages_order:
  "map fst LANGUAGE_PATTERNS =
     [py ''Python'', py ''JavaScript'', py ''Java'', py ''C++'', py ''C#'', py ''TypeScript'',
      py ''Go'', py ''Rust'']"
  by (simp add: LANGUAGE_PATTERNS_def)

lemma detect_language_regex_blank:
  "code = [] \<or> strip code = [] \<Longrightarrow> detect_language_regex findall code = (py ''Unknown'', [])"
  by (auto simp: detect_language_regex_def)

lemma detect_language_regex_scores:
  assumes "code \<noteq> []" and "strip code \<noteq> []"
  shows "detect_language_regex findall code =
    (let scores = map (\<lambda>(l, ps). (l, language_score findall code ps)) LANGUAGE_PATTERNS;
         tr = concat (map (\<lambda>(l, ps). map ReFindall ps) LANGUAGE_PATTERNS)
     in case max_key id (map snd scores) of
          None \<Rightarrow> (py ''Unknown'', tr)
        | Some m \<Rightarrow> if m = 0 then (py ''Unknown'', tr)
            else (case max_key snd scores of None \<Rightarrow> (py ''Unknown'', tr) | Some best \<Rightarrow> (fst best, tr)))"
  using assms score_languages_eq[OF distinct_languages, of "[]" findall code "[]"]
  by (simp add: detect_language_regex_def Let_def)

text \<open>
  Claim C2. For a code string that is neither empty nor made of whitespace only,
  \<open>detect_language_regex\<close> scores each language by the sum, over its patterns, of the
  number of matches that \<^verbatim>\<open>re.findall\<close> returns (non-overlapping, case ignored). The
  languages stand in the order Python, JavaScript, Java, C++, C#, TypeScript, Go, Rust.
  When every score is zero the result is \<^verbatim>\<open>Unknown\<close>. Otherwise the result is a language
  of positive score such that every language before it in that order has a strictly
  smaller score and every language after it has a score that is not greater: the first
  language of maximal score.
\<close>

theorem detect_language_regex_first_maximum:
  assumes "code \<noteq> []" and "strip code \<noteq> []"
  shows "map fst LANGUAGE_PATTERNS =
           [py ''Python'', py ''JavaScript'', py ''Java'', py ''C++'', py ''C#'',
            py ''TypeScript'', py ''Go'', py ''Rust''] \<and>
         (if \<forall>lp\<in>set LANGUAGE_PATTERNS. language_score findall code (snd lp) = 0
          then fst (detect_language_regex findall code) = py ''Unknown''
          else \<exists>before ps after.
                 LANGUAGE_PATTERNS =
                   before @ (fst (detect_language_regex findall code), ps) # after \<and>
                 0 < language_score findall code ps \<and>
                 (\<forall>lp\<in>set before.
                    language_score findall code (snd lp) < language_score findall code ps) \<and>
                 (\<forall>lp\<in>set after.
                    language_score findall code (snd lp) \<le> language_score findall code ps))"
proof -
  let ?sc = "\<lambda>lp. (fst lp, language_score findall code (snd lp))"
  let ?scores = "map ?sc LANGUAGE_PATTERNS"
  have sc: "(\<lambda>(l, ps). (l, language_score findall code ps)) = ?sc"
    by (simp add: fun_eq_iff split: prod.splits)
  have ne: "?scores \<noteq> []" by (simp add: LANGUAGE_PATTERNS_def)
  then obtain m where m: "max_key id (map snd ?scores) = Some m"
    using max_key_Some[of "map snd ?scores" id] by auto
  from ne obtain best where best: "max_key snd ?scores = Some best"
    using max_key_Some[of ?scores snd] by auto
  from max_key_first[OF m] obtain us vs where
    mv: "map snd ?scores = us @ m # vs" "\<forall>v\<in>set vs. v \<le> m" "\<forall>u\<in>set us. u < m"
    by auto
  have all_le: "\<forall>lp\<in>set LANGUAGE_PATTERNS. language_score findall code (snd lp) \<le> m"
  proof
    fix lp assume "lp \<in> set LANGUAGE_PATTERNS"
    then have "language_score findall code (snd lp) \<in> set (map snd ?scores)" by force
    with mv show "language_score findall code (snd lp) \<le> m" by auto
  qed
  have m_in: "m \<in> set (map snd ?scores)" using mv(1) by simp
  then obtain lp0 where lp0: "lp0 \<in> set LANGUAGE_PATTERNS"
    "language_score findall code (snd lp0) = m" by auto
  have res: "detect_language_regex findall code =
     (if m = 0 then py ''Unknown'' else fst best,
      concat (map (\<lambda>(l, ps). map ReFindall ps) LANGUAGE_PATTERNS))"
    using m best by (simp add: detect_language_regex_scores[OF assms] sc Let_def)
  show ?thesis
  proof (cases "\<forall>lp\<in>set LANGUAGE_PATTERNS. language_score findall code (snd lp) = 0")
    case True
    with lp0 have "m = 0" by auto
    with True res show ?thesis by (simp add: languages_order)
  next
    case False
    with all_le have mpos: "0 < m" by force
    from max_key_first[OF best] obtain bs as where
      d: "?scores = bs @ best # as" and b: "\<forall>u\<in>set bs. snd u < snd best"
      and a: "\<forall>v\<in>set as. snd v \<le> snd best" by blast
    from d obtain before x after where L: "LANGUAGE_PATTERNS = before @ x # after"
      and bs: "bs = map ?sc before" and x: "best = ?sc x" and as: "as = map ?sc after"
      by (auto simp: map_eq_append_conv map_eq_Cons_conv)
    have "snd best = m"
    proof -
      have "x \<in> set LANGUAGE_PATTERNS" unfolding L by simp
      with all_le x have "snd best \<le> m" by simp
      moreover have "m \<le> snd best"
      proof -
        from lp0(1) consider "lp0 \<in> set before" | "lp0 = x" | "lp0 \<in> set after"
          unfolding L by auto
        then show ?thesis
        proof cases
          case 1 with b bs lp0(2) show ?thesis by force
        next
          case 2 with x lp0(2) show ?thesis by simp
        next
          case 3 with a as lp0(2) show ?thesis by force
        qed
      qed
      ultimately show ?thesis by simp
    qed
    with mpos x have pos: "0 < language_score findall code (snd x)" by simp
    have r: "fst (detect_language_regex findall code) = fst x"
      using res mpos x by simp
    have "LANGUAGE_PATTERNS = before @ (fst (detect_language_regex findall code), snd x) # after"
      using L r by simp
    moreover have "\<forall>lp\<in>set before.
        language_score findall code (snd lp) < language_score findall code (snd x)"
      using b bs x by simp
    moreover have "\<forall>lp\<in>set after.
        language_score findall code (snd lp) \<le> language_score findall code (snd x)"
      using a as x by simp
    ultimately show ?thesis using False pos languages_order by (simp only: if_False) blast
  qed
qed

lemma import_os_not_blank: "import_os \<noteq> [] \<and> strip import_os \<noteq> []"
  by (simp add: import_os_def strip_def isspace_def)

lemma import_os_python:
  "detect_language_regex findall_import_os import_os =
     (py ''Python'', map ReFindall (concat (map snd LANGUAGE_PATTERNS)))"
  by (simp add: detect_language_regex_def LANGUAGE_PATTERNS_def strip_def isspace_def
      findall_import_os_def import_os_def)

theorem detect_language_regex_first_maximum_witness:
  "import_os \<noteq> [] \<and> strip import_os \<noteq> [] \<and>
   fst (detect_language_regex findall_import_os import_os) = py ''Python'' \<and>
   (\<exists>before ps after.
      LANGUAGE_PATTERNS = before @ (py ''Python'', ps) # after \<and>
      0 < language_score findall_import_os import_os ps \<and>
      (\<forall>lp\<in>set before.
         language_score findall_import_os import_os (snd lp)
           < language_score findall_import_os import_os ps) \<and>
      (\<forall>lp\<in>set after.
         language_score findall_import_os import_os (snd lp)
           \<le> language_score findall_import_os import_os ps))"
proof -
  have nb: "import_os \<noteq> []" "strip import_os \<noteq> []"
    using import_os_not_blank by simp_all
  have r: "fst (detect_language_regex findall_import_os import_os) = py ''Python''"
    by (simp add: import_os_python)
  have nz: "\<not> (\<forall>lp\<in>set LANGUAGE_PATTERNS.
              language_score findall_import_os import_os (snd lp) = 0)"
    by (simp add: LANGUAGE_PATTERNS_def language_score_def findall_import_os_def import_os_def)
  from detect_language_regex_first_maximum[OF nb, of findall_import_os] nz r nb
  show ?thesis by simp
qed

section \<open>The fallback to the language model\<close>

lemma detect_language_regex_trace:
  "snd (detect_language_regex findall code) = [] \<or>
   snd (detect_language_regex findall code) = map ReFindall (concat (map snd LANGUAGE_PATTERNS))"
proof (cases "code = [] \<or> strip code = []")
  case True
  then show ?thesis by (simp add: detect_language_regex_blank)
next
  case False
  have "concat (map (\<lambda>(l, ps). map ReFindall ps) LANGUAGE_PATTERNS) =
        map ReFindall (concat (map snd LANGUAGE_PATTERNS))"
    by (simp add: map_concat comp_def case_prod_unfold)
  with False show ?thesis
    by (simp add: detect_language_regex_scores Let_def split: option.splits)
qed

text \<open>
  What the body of \<open>detect_language_llm\<close> does for an object that has a language model:
  one call of the model, the trimmed answer checked against the eight names and
  \<^verbatim>\<open>Unknown\<close>, and \<^verbatim>\<open>Unknown\<close> when the model raises. No exception leaves it.
\<close>

lemma detect_language_llm_bound:
  "detect_language_llm \<lparr>attr_lm = Bound (Some the_lm)\<rparr> code =
     (Inr (case the_lm (llm_prompt code) of
             Inl e \<Rightarrow> py ''Unknown''
           | Inr response \<Rightarrow>
               if strip response \<in> set (map fst LANGUAGE_PATTERNS @ [py ''Unknown''])
               then strip response else py ''Unknown''),
      [LmCall (llm_prompt code)])"
  by (simp add: detect_language_llm_def getattr_lm_def Let_def split: sum.splits)

text \<open>
  What it does for the object its only caller passes, the class: the class has no
  attribute \<^verbatim>\<open>lm\<close>, the read before the \<^verbatim>\<open>try\<close> raises, and no model is called.
\<close>

lemma detect_language_llm_class:
  "detect_language_llm LanguageDetector_class code = (Inl AttributeError, [])"
  by (simp add: detect_language_llm_def getattr_lm_def LanguageDetector_class_def)

lemma detect_language_no_fallback:
  "detect_language (LanguageDetector_init None) findall code =
     (Inr (fst (detect_language_regex findall code)), snd (detect_language_regex findall code))"
  by (cases "detect_language_regex findall code")
    (simp add: detect_language_def getattr_lm_def LanguageDetector_init_def)

lemma detect_language_known:
  "fst (detect_language_regex findall code) \<noteq> py ''Unknown'' \<Longrightarrow>
   detect_language self findall code =
     (Inr (fst (detect_language_regex findall code)), snd (detect_language_regex findall code))"
  by (cases "detect_language_regex findall code") (simp add: detect_language_def)

lemma detect_language_fallback:
  "fst (detect_language_regex findall code) = py ''Unknown'' \<Longrightarrow>
   detect_language (LanguageDetector_init (Some the_lm)) findall code =
     (Inl AttributeError, snd (detect_language_regex findall code))"
  by (cases "detect_language_regex findall code")
    (simp add: detect_language_def getattr_lm_def LanguageDetector_init_def
      detect_language_llm_class)

lemma detect_language_fallback_never_calls:
  "fst (detect_language_regex findall code) = py ''Unknown'' \<Longrightarrow>
   LmCall p \<notin> set (snd (detect_language (LanguageDetector_init (Some the_lm)) findall code))"
  using detect_language_regex_trace[of findall code]
  by (auto simp: detect_language_fallback)

text \<open>
  Claim C3, as amended. For a code string that is empty or made of whitespace only,
  \<open>detect_language_regex\<close> returns \<^verbatim>\<open>Unknown\<close> at once, with no pattern scored. With no
  fallback configured, \<open>detect_language\<close> returns \<^verbatim>\<open>Unknown\<close> with no pattern scored and
  no model called. With a fallback configured, \<open>detect_language\<close> does not return at once:
  it goes on to \<open>detect_language_llm\<close> with that code, as for any other code the patterns
  cannot tell.
\<close>

theorem detect_language_blank_code:
  assumes "code = [] \<or> strip code = []"
  shows "detect_language_regex findall code = (py ''Unknown'', []) \<and>
         detect_language (LanguageDetector_init None) findall code = (Inr (py ''Unknown''), []) \<and>
         (\<forall>the_lm. detect_language (LanguageDetector_init (Some the_lm)) findall code =
                    detect_language_llm LanguageDetector_class code)"
  using assms
  by (simp add: detect_language_regex_blank detect_language_no_fallback
      detect_language_fallback detect_language_llm_class)

theorem detect_language_blank_code_witness:
  "(py '' \<newline>'' = [] \<or> strip (py '' \<newline>'') = []) \<and>
   detect_language_regex findall_import_os (py '' \<newline>'') = (py ''Unknown'', []) \<and>
   detect_language (LanguageDetector_init None) findall_import_os (py '' \<newline>'') =
     (Inr (py ''Unknown''), []) \<and>
   detect_language (LanguageDetector_init (Some lm_python)) findall_import_os (py '' \<newline>'') =
     detect_language_llm LanguageDetector_class (py '' \<newline>'')"
proof -
  have blank: "py '' \<newline>'' = [] \<or> strip (py '' \<newline>'') = []"
    by (simp add: strip_def isspace_def)
  from detect_language_blank_code[OF blank, of findall_import_os] blank
  show ?thesis by simp
qed

text \<open>
  The claim as it was stated fails with a fallback configured: on the empty string
  \<open>detect_language\<close> raises \<^verbatim>\<open>AttributeError\<close> instead of returning \<^verbatim>\<open>Unknown\<close>.
\<close>

theorem detect_language_blank_code_counterexample:
  "fst (detect_language (LanguageDetector_init (Some lm_python)) findall_nothing []) =
     Inl AttributeError \<and>
   fst (detect_language (LanguageDetector_init (Some lm_python)) findall_nothing []) \<noteq>
     Inr (py ''Unknown'')"
  by (simp add: detect_language_fallback detect_language_regex_blank)

text \<open>
  Claim C4. The code at the failing input: a text that no pattern matches, with a
  language model configured. The regex pass scores all the patterns and returns
  \<^verbatim>\<open>Unknown\<close>; the call of \<open>detect_language_llm\<close> raises \<^verbatim>\<open>AttributeError\<close>, which reaches
  the caller of \<open>detect_language\<close>; the trace holds the pattern searches and no call of
  the model.
\<close>

theorem detect_language_fallback_attribute_error:
  "detect_language (LanguageDetector_init (Some lm_python)) findall_nothing (py ''hello world'') =
     (Inl AttributeError, map ReFindall (concat (map snd LANGUAGE_PATTERNS)))"
proof -
  have "detect_language_regex findall_nothing (py ''hello world'') =
          (py ''Unknown'', map ReFindall (concat (map snd LANGUAGE_PATTERNS)))"
    by (simp add: detect_language_regex_def LANGUAGE_PATTERNS_def strip_def isspace_def
        findall_nothing_def)
  then show ?thesis by (simp add: detect_language_fallback)
qed

section \<open>The loop over the comments\<close>

lemma forward_total:
  "forward self n code c language =
     Inr (case forward_try self n code c language of Inl e \<Rightarrow> None | Inr d \<Rightarrow> Some d)"
  by (simp add: forward_def split: sum.splits)

lemma transform_comment_failure:
  "forward_try self n code c language = Inl e \<Longrightarrow>
   transform_comment self n code c language = (Some TypeError, fallback c)"
  by (simp add: transform_comment_def forward_total unpack_def)

lemma transform_comment_success:
  "forward_try self n code c language = Inr d \<Longrightarrow>
   transform_comment self n code c language =
     (None, \<lparr>positive_rephrasing = positive_rephrasing d, explanation = explanation d,
             suggested_improvement = suggested_improvement d, severity = severity d,
             resources = resources d, original = c\<rparr>)"
  by (simp add: transform_comment_def forward_total unpack_def)

lemma original_transform_comment: "original (snd (transform_comment self n code c language)) = c"
  by (cases "forward_try self n code c language")
    (simp_all add: transform_comment_failure transform_comment_success fallback_def)

lemma fold_append_each:
  "fold (\<lambda>(i, c) acc. acc @ [g i c]) xs acc = acc @ map (\<lambda>(i, c). g i c) xs"
  by (induction xs arbitrary: acc) (auto split: prod.splits)

lemma transform_comments_map:
  "transform_comments self code cs language =
     map (\<lambda>(i, c). snd (transform_comment self i code c language)) (enumerate 0 cs)"
  by (simp add: transform_comments_def fold_append_each)

lemma length_transform_comments [simp]:
  "length (transform_comments self code cs language) = length cs"
  by (simp add: transform_comments_map)

lemma nth_transform_comments:
  "i < length cs \<Longrightarrow>
   transform_comments self code cs language ! i =
     snd (transform_comment self i code (cs ! i) language)"
  by (simp add: transform_comments_map nth_enumerate_eq)

lemma original_transform_comments:
  "map original (transform_comments self code cs language) = cs"
  by (rule nth_equalityI) (simp_all add: nth_transform_comments original_transform_comment)

text \<open>
  Claim C10. \<open>forward\<close> never raises: it returns a dictionary or \<^verbatim>\<open>None\<close>. When the
  transformer raises, or the resource finder raises after it, \<open>forward\<close> returns \<^verbatim>\<open>None\<close>.
  On \<^verbatim>\<open>None\<close> the unpacking in \<^verbatim>\<open>process_review\<close> raises \<^verbatim>\<open>TypeError\<close>, and the handler
  appends the fallback record. The handler of the loop catches nothing else: whenever it
  runs, the exception is that \<^verbatim>\<open>TypeError\<close> and \<open>forward\<close> had returned \<^verbatim>\<open>None\<close>.
\<close>

theorem forward_never_raises:
  "(\<exists>r. forward self n code c language = Inr r) \<and>
   ((\<exists>e. empathy_transformer self n code c
            (language @ py '' best practices and clean code principles'') = Inl e) \<longrightarrow>
      forward self n code c language = Inr None) \<and>
   (\<forall>result e.
      empathy_transformer self n code c
        (language @ py '' best practices and clean code principles'') = Inr result \<and>
      resource_finder self n (take 100 (result_why_explanation result)) language = Inl e \<longrightarrow>
      forward self n code c language = Inr None) \<and>
   (forward self n code c language = Inr None \<longrightarrow>
      unpack c None = Inl TypeError \<and>
      transform_comment self n code c language = (Some TypeError, fallback c)) \<and>
   (\<forall>e. fst (transform_comment self n code c language) = Some e \<longrightarrow>
      e = TypeError \<and> forward self n code c language = Inr None)"
proof (intro conjI allI impI)
  show "\<exists>r. forward self n code c language = Inr r"
    by (simp add: forward_total)
next
  assume "\<exists>e. empathy_transformer self n code c
            (language @ py '' best practices and clean code principles'') = Inl e"
  then show "forward self n code c language = Inr None"
    by (auto simp: forward_def forward_try_def)
next
  fix result e
  assume "empathy_transformer self n code c
            (language @ py '' best practices and clean code principles'') = Inr result \<and>
          resource_finder self n (take 100 (result_why_explanation result)) language = Inl e"
  then show "forward self n code c language = Inr None"
    by (simp add: forward_def forward_try_def)
next
  assume "forward self n code c language = Inr None"
  then show "transform_comment self n code c language = (Some TypeError, fallback c)"
    by (simp add: transform_comment_def unpack_def)
next
  show "unpack c None = Inl TypeError" by (simp add: unpack_def)
next
  fix e assume e: "fst (transform_comment self n code c language) = Some e"
  then obtain x where x: "forward_try self n code c language = Inl x"
    by (cases "forward_try self n code c language") (simp_all add: transform_comment_success)
  with e show "e = TypeError" by (simp add: transform_comment_failure)
  from x show "forward self n code c language = Inr None" by (simp add: forward_total)
qed

theorem forward_never_raises_witness:
  "empathy_transformer analyzer_ok 1 import_os (py ''bad name'')
     (py ''Python'' @ py '' best practices and clean code principles'') =
     Inl (Raised (py ''timeout'')) \<and>
   forward analyzer_ok 1 import_os (py ''bad name'') (py ''Python'') = Inr None \<and>
   transform_comment analyzer_ok 1 import_os (py ''bad name'') (py ''Python'') =
     (Some TypeError, fallback (py ''bad name''))"
proof -
  have t: "empathy_transformer analyzer_ok 1 import_os (py ''bad name'')
     (py ''Python'' @ py '' best practices and clean code principles'') =
     Inl (Raised (py ''timeout''))"
    by (simp add: analyzer_ok_def transformer_ok_def)
  then have "\<exists>e. empathy_transformer analyzer_ok 1 import_os (py ''bad name'')
     (py ''Python'' @ py '' best practices and clean code principles'') = Inl e"
    by blast
  with forward_never_raises[of analyzer_ok 1 import_os "py ''bad name''" "py ''Python''"] t
  show ?thesis by blast
qed

section \<open>The parts of a report\<close>

lemma fold_append_concat:
  "fold (\<lambda>x report. report @ f x) xs report = report @ concat (map f xs)"
  by (induction xs arbitrary: report) simp_all

lemma fold_append_filter:
  "fold (\<lambda>x report. if P x then report @ f x else report) xs report =
     report @ concat (map f (filter P xs))"
  by (induction xs arbitrary: report) simp_all

lemma fold_bullets:
  "fold (\<lambda>line report. report @ a @ line @ b) (map g ys) r =
     r @ concat (map (\<lambda>item. a @ g item @ b) ys)"
  by (induction ys arbitrary: r) simp_all

lemma strip_Nil [simp]: "strip [] = []"
  by (simp add: strip_def)

lemma add_resources_eq:
  "add_resources x report =
     report @
     (case get_resources x of
        ResNone \<Rightarrow> []
      | ResStr s \<Rightarrow>
          if s = [] then [] else resources_header @ bullets (split 10 s) @ py ''\<newline>''
      | ResList rs \<Rightarrow>
          if rs = [] then [] else resources_header @ bullets rs @ py ''\<newline>'')"
proof (cases "get_resources x")
  case ResNone
  then show ?thesis by (simp add: add_resources_def)
next
  case (ResStr s)
  from fold_bullets[of "py ''- ''" "py ''\<newline>''" strip
      "filter (\<lambda>line. strip line \<noteq> []) (split 10 s)"]
  have "fold (\<lambda>line report. report @ py ''- '' @ line @ py ''\<newline>'')
          (map strip (filter (\<lambda>line. strip line \<noteq> []) (split 10 s))) r =
        r @ bullets (split 10 s)" for r
    by (simp add: bullets_def)
  with ResStr show ?thesis
    by (simp add: add_resources_def resources_header_def Let_def)
next
  case (ResList rs)
  have c: "(\<lambda>resource. resource \<noteq> [] \<and> strip resource \<noteq> []) = (\<lambda>item. strip item \<noteq> [])"
    by (auto simp: fun_eq_iff)
  from fold_append_filter[of "\<lambda>resource. resource \<noteq> [] \<and> strip resource \<noteq> []"
      "\<lambda>item. py ''- '' @ strip item @ py ''\<newline>''" rs]
  have "fold (\<lambda>resource report.
                if resource \<noteq> [] \<and> strip resource \<noteq> []
                then report @ py ''- '' @ strip resource @ py ''\<newline>'' else report) rs r =
        r @ bullets rs" for r
    by (simp add: bullets_def c)
  with ResList show ?thesis
    by (simp add: add_resources_def resources_header_def Let_def)
qed

lemma add_resources_append: "add_resources x report = report @ add_resources x []"
  by (simp add: add_resources_eq[of x report] add_resources_eq[of x "[]"])

lemma add_comment_append:
  "add_comment code_lang (i, x) report = report @ comment_section code_lang i x"
  by (simp add: comment_section_def add_comment_def Let_def add_resources_eq)

lemma fold_add_comment:
  "fold (add_comment code_lang) ixs report =
     report @ concat (map (\<lambda>(i, x). comment_section code_lang i x) ixs)"
  by (induction ixs arbitrary: report) (auto simp: add_comment_append)

lemma generate_markdown_report_parts:
  "generate_markdown_report code comments summary language =
     (report_head code language @
      concat (feedback_sections language (sort_key sort_rank comments)) @
      report_tail summary,
      sort_key sort_rank comments)"
  by (simp add: generate_markdown_report_def Let_def fold_add_comment report_head_def
      feedback_sections_def report_tail_def)

lemma length_feedback_sections [simp]:
  "length (feedback_sections language comments) = length comments"
  by (simp add: feedback_sections_def)

section \<open>process_review\<close>

lemma process_review_eq:
  "process_review self findall inp =
     (case fst (detect_language (language_detector self) findall (code_snippet inp)) of
        Inl e \<Rightarrow> Inl e
      | Inr language \<Rightarrow>
          (case summary_generator (analyzer self) (code_snippet inp)
                  (join (py ''\<newline>'')
                     (map (\<lambda>tc. py ''- '' @ positive_rephrasing tc)
                        (transform_comments (analyzer self) (code_snippet inp)
                           (review_comments inp) language)))
                  language of
             Inl e \<Rightarrow> Inl UnboundLocalError
           | Inr s \<Rightarrow>
               Inr (fst (generate_markdown_report (code_snippet inp)
                           (transform_comments (analyzer self) (code_snippet inp)
                              (review_comments inp) language)
                           s language))))"
  by (simp add: process_review_def Let_def split: sum.splits)

text \<open>
  When the detection of the language and the summary both return, \<open>process_review\<close>
  returns a report; when the summary generator raises, \<open>process_review\<close> raises
  \<^verbatim>\<open>UnboundLocalError\<close>, whatever the comments.
\<close>

lemma process_review_returns:
  assumes "fst (detect_language (language_detector self) findall (code_snippet inp)) =
             Inr language"
    and "summary_generator (analyzer self) (code_snippet inp)
           (join (py ''\<newline>'')
              (map (\<lambda>tc. py ''- '' @ positive_rephrasing tc)
                 (transform_comments (analyzer self) (code_snippet inp)
                    (review_comments inp) language)))
           language = Inr s"
  shows "process_review self findall inp =
           Inr (report_head (code_snippet inp) language @
                concat (feedback_sections language
                          (sort_key sort_rank
                             (transform_comments (analyzer self) (code_snippet inp)
                                (review_comments inp) language))) @
                report_tail s)"
  using assms by (simp add: process_review_eq generate_markdown_report_parts)

lemma process_review_summary_raises:
  assumes "fst (detect_language (language_detector self) findall (code_snippet inp)) =
             Inr language"
    and "summary_generator (analyzer self) (code_snippet inp)
           (join (py ''\<newline>'')
              (map (\<lambda>tc. py ''- '' @ positive_rephrasing tc)
                 (transform_comments (analyzer self) (code_snippet inp)
                    (review_comments inp) language)))
           language = Inl e"
  shows "process_review self findall inp = Inl UnboundLocalError"
  using assms by (simp add: process_review_eq)

lemma comment_section_text: "comment_section code_lang i x = section_text code_lang i x"
  by (simp add: comment_section_def add_comment_def Let_def add_resources_eq section_text_def
      resources_text_def severity_mark_def dict_get_def severity_emoji_map_def)

lemma feedback_sections_text:
  "feedback_sections language comments =
     map (\<lambda>(i, x). section_text (dict_get lang_map language (py ''text'')) i x)
       (enumerate 1 comments)"
  by (simp add: feedback_sections_def comment_section_text)

lemma section_text_fallback:
  "section_text code_lang j
     \<lparr>positive_rephrasing = py ''Let's look at improving this aspect: '' @ c,
      explanation = py ''This change will improve code quality.'',
      suggested_improvement = py ''# See suggested improvement in code'',
      severity = Some (py ''MEDIUM''),
      resources = Some (ResList []),
      original = c\<rparr> =
   py ''---\<newline>\<newline>### '' @ [0x11F, 0x178, 0x178, 0xA1] @ py '' Analysis of Comment #'' @
   str_of_nat j @ py '': '' @ [0x22] @ c @ [0x22] @ py ''\<newline>\<newline>'' @
   py ''**'' @ [0xE2, 0x153, 0xA8] @ py '' Positive Rephrasing:**\<newline>'' @
   py ''Let's look at improving this aspect: '' @ c @ py ''\<newline>\<newline>'' @
   py ''**'' @ [0x11F, 0x178, 0x201C, 0x161] @ py '' The 'Why':**\<newline>'' @
   py ''This change will improve code quality.\<newline>\<newline>'' @
   py ''**'' @ [0x11F, 0x178, 0x201D, 0xA7] @ py '' Suggested Improvement:**\<newline>```'' @
   code_lang @ py ''\<newline># See suggested improvement in code\<newline>```\<newline>\<newline>''"
  by (simp add: section_text_def severity_mark_def resources_text_def get_severity_def
      get_resources_def)

text \<open>
  Claim C1. For every snippet and every list of \<open>N\<close> comments, whatever language was
  detected, the loop of \<open>process_review\<close> builds \<open>N\<close> records, the \<open>i\<close>-th for the
  \<open>i\<close>-th comment. A record whose transformation failed (the transformer or the resource
  finder raised) is the fallback record: the rephrasing
  \<^verbatim>\<open>Let's look at improving this aspect: \<close> followed by the comment, the fixed explanation,
  the placeholder improvement, severity \<^verbatim>\<open>MEDIUM\<close>, no resources. Every other record holds
  what its own transformation returned, whatever happened to the others. Every report
  that \<open>process_review\<close> returns is the head, then \<open>N\<close> sections of feedback, then the
  tail: the sections are numbered from 1 to \<open>N\<close>, one for each record, in the order of the
  sort by severity (which keeps every record), and the text of each section is written
  from the fields of its record, the original comment and the rephrasing, explanation
  and improvement among them. The section of a fallback record is the text with the
  yellow mark and the fixed fallback texts, and no learning resources.
\<close>

theorem process_review_feedback_sections:
  "(\<forall>language.
      length (transform_comments (analyzer self) (code_snippet inp) (review_comments inp)
                language) = length (review_comments inp) \<and>
      map original
        (transform_comments (analyzer self) (code_snippet inp) (review_comments inp) language) =
        review_comments inp \<and>
      (\<forall>i<length (review_comments inp).
         case forward_try (analyzer self) i (code_snippet inp) (review_comments inp ! i)
                language of
           Inl e \<Rightarrow>
             transform_comments (analyzer self) (code_snippet inp) (review_comments inp)
               language ! i =
             \<lparr>positive_rephrasing =
                py ''Let's look at improving this aspect: '' @ review_comments inp ! i,
              explanation = py ''This change will improve code quality.'',
              suggested_improvement = py ''# See suggested improvement in code'',
              severity = Some (py ''MEDIUM''),
              resources = Some (ResList []),
              original = review_comments inp ! i\<rparr>
         | Inr d \<Rightarrow>
             transform_comments (analyzer self) (code_snippet inp) (review_comments inp)
               language ! i =
             \<lparr>positive_rephrasing = positive_rephrasing d, explanation = explanation d,
              suggested_improvement = suggested_improvement d, severity = severity d,
              resources = resources d, original = review_comments inp ! i\<rparr>)) \<and>
   (\<forall>report.
      process_review self findall inp = Inr report \<longrightarrow>
      (\<exists>language summary.
         fst (detect_language (language_detector self) findall (code_snippet inp)) =
           Inr language \<and>
         report =
           report_head (code_snippet inp) language @
           concat (map (\<lambda>(i, x). section_text (dict_get lang_map language (py ''text'')) i x)
                     (enumerate 1
                        (sort_key sort_rank
                           (transform_comments (analyzer self) (code_snippet inp)
                              (review_comments inp) language)))) @
           report_tail summary \<and>
         map fst
           (enumerate 1
              (sort_key sort_rank
                 (transform_comments (analyzer self) (code_snippet inp) (review_comments inp)
                    language))) = [1..<Suc (length (review_comments inp))] \<and>
         mset (sort_key sort_rank
                 (transform_comments (analyzer self) (code_snippet inp) (review_comments inp)
                    language)) =
           mset (transform_comments (analyzer self) (code_snippet inp) (review_comments inp)
                   language))) \<and>
   (\<forall>code_lang j c.
      section_text code_lang j
        \<lparr>positive_rephrasing = py ''Let's look at improving this aspect: '' @ c,
         explanation = py ''This change will improve code quality.'',
         suggested_improvement = py ''# See suggested improvement in code'',
         severity = Some (py ''MEDIUM''),
         resources = Some (ResList []),
         original = c\<rparr> =
      py ''---\<newline>\<newline>### '' @ [0x11F, 0x178, 0x178, 0xA1] @ py '' Analysis of Comment #'' @
      str_of_nat j @ py '': '' @ [0x22] @ c @ [0x22] @ py ''\<newline>\<newline>'' @
      py ''**'' @ [0xE2, 0x153, 0xA8] @ py '' Positive Rephrasing:**\<newline>'' @
      py ''Let's look at improving this aspect: '' @ c @ py ''\<newline>\<newline>'' @
      py ''**'' @ [0x11F, 0x178, 0x201C, 0x161] @ py '' The 'Why':**\<newline>'' @
      py ''This change will improve code quality.\<newline>\<newline>'' @
      py ''**'' @ [0x11F, 0x178, 0x201D, 0xA7] @ py '' Suggested Improvement:**\<newline>```'' @
      code_lang @ py ''\<newline># See suggested improvement in code\<newline>```\<newline>\<newline>'')"
proof (intro conjI allI impI)
  fix language
  let ?code = "code_snippet inp" and ?cs = "review_comments inp"
  let ?tcs = "transform_comments (analyzer self) ?code ?cs language"
  show "length ?tcs = length ?cs" by simp
  show "map original ?tcs = ?cs" by (simp add: original_transform_comments)
  fix i assume "i < length ?cs"
  then show "case forward_try (analyzer self) i ?code (?cs ! i) language of
           Inl e \<Rightarrow>
             ?tcs ! i =
             \<lparr>positive_rephrasing = py ''Let's look at improving this aspect: '' @ ?cs ! i,
              explanation = py ''This change will improve code quality.'',
              suggested_improvement = py ''# See suggested improvement in code'',
              severity = Some (py ''MEDIUM''),
              resources = Some (ResList []),
              original = ?cs ! i\<rparr>
         | Inr d \<Rightarrow>
             ?tcs ! i =
             \<lparr>positive_rephrasing = positive_rephrasing d, explanation = explanation d,
              suggested_improvement = suggested_improvement d, severity = severity d,
              resources = resources d, original = ?cs ! i\<rparr>"
    by (cases "forward_try (analyzer self) i ?code (?cs ! i) language")
      (simp_all add: nth_transform_comments transform_comment_failure
        transform_comment_success fallback_def)
next
  fix report
  let ?code = "code_snippet inp" and ?cs = "review_comments inp"
  assume pr: "process_review self findall inp = Inr report"
  then obtain language where
    l: "fst (detect_language (language_detector self) findall ?code) = Inr language"
    by (auto simp: process_review_eq split: sum.splits)
  let ?tcs = "transform_comments (analyzer self) ?code ?cs language"
  from pr l obtain summary where
    "report = fst (generate_markdown_report ?code ?tcs summary language)"
    by (auto simp: process_review_eq split: sum.splits)
  then have r: "report =
          report_head ?code language @
          concat (map (\<lambda>(i, x). section_text (dict_get lang_map language (py ''text'')) i x)
                    (enumerate 1 (sort_key sort_rank ?tcs))) @
          report_tail summary"
    by (simp only: generate_markdown_report_parts fst_conv feedback_sections_text)
  have n: "map fst (enumerate 1 (sort_key sort_rank ?tcs)) = [1..<Suc (length ?cs)]"
    by (simp add: enumerate_eq_zip)
  have m: "mset (sort_key sort_rank ?tcs) = mset ?tcs" by simp
  from l r n m show "\<exists>language summary.
         fst (detect_language (language_detector self) findall ?code) = Inr language \<and>
         report =
           report_head ?code language @
           concat (map (\<lambda>(i, x). section_text (dict_get lang_map language (py ''text'')) i x)
                     (enumerate 1
                        (sort_key sort_rank
                           (transform_comments (analyzer self) ?code ?cs language)))) @
           report_tail summary \<and>
         map fst
           (enumerate 1
              (sort_key sort_rank (transform_comments (analyzer self) ?code ?cs language))) =
           [1..<Suc (length ?cs)] \<and>
         mset (sort_key sort_rank (transform_comments (analyzer self) ?code ?cs language)) =
           mset (transform_comments (analyzer self) ?code ?cs language)"
    by blast
next
  fix code_lang j c
  show "section_text code_lang j
        \<lparr>positive_rephrasing = py ''Let's look at improving this aspect: '' @ c,
         explanation = py ''This change will improve code quality.'',
         suggested_improvement = py ''# See suggested improvement in code'',
         severity = Some (py ''MEDIUM''),
         resources = Some (ResList []),
         original = c\<rparr> =
      py ''---\<newline>\<newline>### '' @ [0x11F, 0x178, 0x178, 0xA1] @ py '' Analysis of Comment #'' @
      str_of_nat j @ py '': '' @ [0x22] @ c @ [0x22] @ py ''\<newline>\<newline>'' @
      py ''**'' @ [0xE2, 0x153, 0xA8] @ py '' Positive Rephrasing:**\<newline>'' @
      py ''Let's look at improving this aspect: '' @ c @ py ''\<newline>\<newline>'' @
      py ''**'' @ [0x11F, 0x178, 0x201C, 0x161] @ py '' The 'Why':**\<newline>'' @
      py ''This change will improve code quality.\<newline>\<newline>'' @
      py ''**'' @ [0x11F, 0x178, 0x201D, 0xA7] @ py '' Suggested Improvement:**\<newline>```'' @
      code_lang @ py ''\<newline># See suggested improvement in code\<newline>```\<newline>\<newline>''"
    by (rule section_text_fallback)
qed

lemma detect_language_import_os:
  "fst (detect_language (LanguageDetector_init (Some the_lm)) findall_import_os import_os) =
     Inr (py ''Python'')"
  by (simp add: detect_language_known import_os_python)

lemma transform_three:
  "transform_comments analyzer_ok import_os three_comments (py ''Python'') =
     [\<lparr>positive_rephrasing = py ''Nice: slow'', explanation = py ''Because.'',
       suggested_improvement = py ''pass'', severity = Some (py ''LOW''),
       resources = Some (ResStr (py ''docs\<newline> \<newline>pep8'')), original = py ''slow''\<rparr>,
      fallback (py ''bad name''),
      \<lparr>positive_rephrasing = py ''Nice: redundant'', explanation = py ''Because.'',
       suggested_improvement = py ''pass'', severity = Some (py ''HIGH''),
       resources = Some (ResStr (py ''docs\<newline> \<newline>pep8'')), original = py ''redundant''\<rparr>]"
  by (simp add: transform_comments_map three_comments_def enumerate_eq_zip upt_rec
      transform_comment_def forward_def forward_try_def unpack_def analyzer_ok_def
      transformer_ok_def finder_ok_def)

lemma sorted_three:
  "map original
     (sort_key sort_rank (transform_comments analyzer_ok import_os three_comments (py ''Python''))) =
     [py ''redundant'', py ''bad name'', py ''slow'']"
  using transform_three
  by (simp add: sort_rank_def get_severity_def dict_get_def severity_order_def fallback_def)

lemma sorted_three_records:
  "sort_key sort_rank (transform_comments analyzer_ok import_os three_comments (py ''Python'')) =
     [\<lparr>positive_rephrasing = py ''Nice: redundant'', explanation = py ''Because.'',
       suggested_improvement = py ''pass'', severity = Some (py ''HIGH''),
       resources = Some (ResStr (py ''docs\<newline> \<newline>pep8'')), original = py ''redundant''\<rparr>,
      \<lparr>positive_rephrasing = py ''Let's look at improving this aspect: bad name'',
       explanation = py ''This change will improve code quality.'',
       suggested_improvement = py ''# See suggested improvement in code'',
       severity = Some (py ''MEDIUM''), resources = Some (ResList []),
       original = py ''bad name''\<rparr>,
      \<lparr>positive_rephrasing = py ''Nice: slow'', explanation = py ''Because.'',
       suggested_improvement = py ''pass'', severity = Some (py ''LOW''),
       resources = Some (ResStr (py ''docs\<newline> \<newline>pep8'')), original = py ''slow''\<rparr>]"
  using transform_three
  by (simp add: sort_rank_def get_severity_def dict_get_def severity_order_def fallback_def)

theorem process_review_feedback_sections_witness:
  "process_review reviewer_ok findall_import_os input_three =
     Inr (report_head import_os (py ''Python'') @
          concat
            [section_text (py ''python'') 1
               \<lparr>positive_rephrasing = py ''Nice: redundant'', explanation = py ''Because.'',
                suggested_improvement = py ''pass'', severity = Some (py ''HIGH''),
                resources = Some (ResStr (py ''docs\<newline> \<newline>pep8'')),
                original = py ''redundant''\<rparr>,
             section_text (py ''python'') 2
               \<lparr>positive_rephrasing = py ''Let's look at improving this aspect: bad name'',
                explanation = py ''This change will improve code quality.'',
                suggested_improvement = py ''# See suggested improvement in code'',
                severity = Some (py ''MEDIUM''), resources = Some (ResList []),
                original = py ''bad name''\<rparr>,
             section_text (py ''python'') 3
               \<lparr>positive_rephrasing = py ''Nice: slow'', explanation = py ''Because.'',
                suggested_improvement = py ''pass'', severity = Some (py ''LOW''),
                resources = Some (ResStr (py ''docs\<newline> \<newline>pep8'')),
                original = py ''slow''\<rparr>] @
          report_tail (py ''Well done.'')) \<and>
   length (transform_comments analyzer_ok import_os three_comments (py ''Python'')) = 3 \<and>
   transform_comments analyzer_ok import_os three_comments (py ''Python'') ! 1 =
     \<lparr>positive_rephrasing = py ''Let's look at improving this aspect: bad name'',
      explanation = py ''This change will improve code quality.'',
      suggested_improvement = py ''# See suggested improvement in code'',
      severity = Some (py ''MEDIUM''), resources = Some (ResList []),
      original = py ''bad name''\<rparr> \<and>
   section_text (py ''python'') 2
     \<lparr>positive_rephrasing = py ''Let's look at improving this aspect: bad name'',
      explanation = py ''This change will improve code quality.'',
      suggested_improvement = py ''# See suggested improvement in code'',
      severity = Some (py ''MEDIUM''), resources = Some (ResList []),
      original = py ''bad name''\<rparr> =
     py ''---\<newline>\<newline>### '' @ [0x11F, 0x178, 0x178, 0xA1] @
     py '' Analysis of Comment #2: '' @ [0x22] @ py ''bad name'' @ [0x22] @ py ''\<newline>\<newline>'' @
     py ''**'' @ [0xE2, 0x153, 0xA8] @ py '' Positive Rephrasing:**\<newline>'' @
     py ''Let's look at improving this aspect: bad name\<newline>\<newline>'' @
     py ''**'' @ [0x11F, 0x178, 0x201C, 0x161] @ py '' The 'Why':**\<newline>'' @
     py ''This change will improve code quality.\<newline>\<newline>'' @
     py ''**'' @ [0x11F, 0x178, 0x201D, 0xA7] @ py '' Suggested Improvement:**\<newline>```python\<newline>'' @
     py ''# See suggested improvement in code\<newline>```\<newline>\<newline>''"
proof -
  note t = process_review_feedback_sections[of reviewer_ok input_three findall_import_os]
  have an: "analyzer reviewer_ok = analyzer_ok" "code_snippet input_three = import_os"
    "review_comments input_three = three_comments"
    by (simp_all add: reviewer_ok_def EmpatheticCodeReviewer_init_def input_three_def)
  have l3: "length three_comments = 3" by (simp add: three_comments_def)
  have d: "fst (detect_language (language_detector reviewer_ok) findall_import_os
                  (code_snippet input_three)) = Inr (py ''Python'')"
    by (simp add: reviewer_ok_def EmpatheticCodeReviewer_init_def input_three_def
        detect_language_import_os)
  have "process_review reviewer_ok findall_import_os input_three =
     Inr (report_head import_os (py ''Python'') @
          concat (feedback_sections (py ''Python'')
                    (sort_key sort_rank
                       (transform_comments analyzer_ok import_os three_comments (py ''Python'')))) @
          report_tail (py ''Well done.''))"
    using process_review_returns[OF d, of "py ''Well done.''"]
    by (simp add: reviewer_ok_def EmpatheticCodeReviewer_init_def input_three_def analyzer_ok_def)
  then have pr: "process_review reviewer_ok findall_import_os input_three =
     Inr (report_head import_os (py ''Python'') @
          concat
            [section_text (py ''python'') 1
               \<lparr>positive_rephrasing = py ''Nice: redundant'', explanation = py ''Because.'',
                suggested_improvement = py ''pass'', severity = Some (py ''HIGH''),
                resources = Some (ResStr (py ''docs\<newline> \<newline>pep8'')),
                original = py ''redundant''\<rparr>,
             section_text (py ''python'') 2
               \<lparr>positive_rephrasing = py ''Let's look at improving this aspect: bad name'',
                explanation = py ''This change will improve code quality.'',
                suggested_improvement = py ''# See suggested improvement in code'',
                severity = Some (py ''MEDIUM''), resources = Some (ResList []),
                original = py ''bad name''\<rparr>,
             section_text (py ''python'') 3
               \<lparr>positive_rephrasing = py ''Nice: slow'', explanation = py ''Because.'',
                suggested_improvement = py ''pass'', severity = Some (py ''LOW''),
                resources = Some (ResStr (py ''docs\<newline> \<newline>pep8'')),
                original = py ''slow''\<rparr>] @
          report_tail (py ''Well done.''))"
    using sorted_three_records l3
    by (simp add: feedback_sections_text enumerate_eq_zip upt_rec dict_get_def lang_map_def
        numeral_2_eq_2 numeral_3_eq_3)
  from t have "length (transform_comments (analyzer reviewer_ok) (code_snippet input_three)
                  (review_comments input_three) (py ''Python'')) =
               length (review_comments input_three)"
    by blast
  then have n: "length (transform_comments analyzer_ok import_os three_comments (py ''Python'')) = 3"
    by (simp add: an three_comments_def)
  have i: "(1::nat) < length (review_comments input_three)"
    by (simp add: an three_comments_def)
  from t have "\<forall>i<length (review_comments input_three).
         case forward_try (analyzer reviewer_ok) i (code_snippet input_three)
                (review_comments input_three ! i) (py ''Python'') of
           Inl e \<Rightarrow>
             transform_comments (analyzer reviewer_ok) (code_snippet input_three)
               (review_comments input_three) (py ''Python'') ! i =
             \<lparr>positive_rephrasing =
                py ''Let's look at improving this aspect: '' @ review_comments input_three ! i,
              explanation = py ''This change will improve code quality.'',
              suggested_improvement = py ''# See suggested improvement in code'',
              severity = Some (py ''MEDIUM''),
              resources = Some (ResList []),
              original = review_comments input_three ! i\<rparr>
         | Inr d \<Rightarrow>
             transform_comments (analyzer reviewer_ok) (code_snippet input_three)
               (review_comments input_three) (py ''Python'') ! i =
             \<lparr>positive_rephrasing = positive_rephrasing d, explanation = explanation d,
              suggested_improvement = suggested_improvement d, severity = severity d,
              resources = resources d, original = review_comments input_three ! i\<rparr>"
    by blast
  with i have "case forward_try (analyzer reviewer_ok) 1 (code_snippet input_three)
                (review_comments input_three ! 1) (py ''Python'') of
           Inl e \<Rightarrow>
             transform_comments (analyzer reviewer_ok) (code_snippet input_three)
               (review_comments input_three) (py ''Python'') ! 1 =
             \<lparr>positive_rephrasing =
                py ''Let's look at improving this aspect: '' @ review_comments input_three ! 1,
              explanation = py ''This change will improve code quality.'',
              suggested_improvement = py ''# See suggested improvement in code'',
              severity = Some (py ''MEDIUM''),
              resources = Some (ResList []),
              original = review_comments input_three ! 1\<rparr>
         | Inr d \<Rightarrow>
             transform_comments (analyzer reviewer_ok) (code_snippet input_three)
               (review_comments input_three) (py ''Python'') ! 1 =
             \<lparr>positive_rephrasing = positive_rephrasing d, explanation = explanation d,
              suggested_improvement = suggested_improvement d, severity = severity d,
              resources = resources d, original = review_comments input_three ! 1\<rparr>"
    by blast
  then have f: "transform_comments analyzer_ok import_os three_comments (py ''Python'') ! 1 =
     \<lparr>positive_rephrasing = py ''Let's look at improving this aspect: bad name'',
      explanation = py ''This change will improve code quality.'',
      suggested_improvement = py ''# See suggested improvement in code'',
      severity = Some (py ''MEDIUM''), resources = Some (ResList []),
      original = py ''bad name''\<rparr>"
    by (simp add: an three_comments_def forward_try_def analyzer_ok_def transformer_ok_def)
  from t have "section_text (py ''python'') 2
        \<lparr>positive_rephrasing = py ''Let's look at improving this aspect: '' @ py ''bad name'',
         explanation = py ''This change will improve code quality.'',
         suggested_improvement = py ''# See suggested improvement in code'',
         severity = Some (py ''MEDIUM''),
         resources = Some (ResList []),
         original = py ''bad name''\<rparr> =
      py ''---\<newline>\<newline>### '' @ [0x11F, 0x178, 0x178, 0xA1] @ py '' Analysis of Comment #'' @
      str_of_nat 2 @ py '': '' @ [0x22] @ py ''bad name'' @ [0x22] @ py ''\<newline>\<newline>'' @
      py ''**'' @ [0xE2, 0x153, 0xA8] @ py '' Positive Rephrasing:**\<newline>'' @
      py ''Let's look at improving this aspect: '' @ py ''bad name'' @ py ''\<newline>\<newline>'' @
      py ''**'' @ [0x11F, 0x178, 0x201C, 0x161] @ py '' The 'Why':**\<newline>'' @
      py ''This change will improve code quality.\<newline>\<newline>'' @
      py ''**'' @ [0x11F, 0x178, 0x201D, 0xA7] @ py '' Suggested Improvement:**\<newline>```'' @
      py ''python'' @ py ''\<newline># See suggested improvement in code\<newline>```\<newline>\<newline>''"
    by blast
  then have s: "section_text (py ''python'') 2
     \<lparr>positive_rephrasing = py ''Let's look at improving this aspect: bad name'',
      explanation = py ''This change will improve code quality.'',
      suggested_improvement = py ''# See suggested improvement in code'',
      severity = Some (py ''MEDIUM''), resources = Some (ResList []),
      original = py ''bad name''\<rparr> =
     py ''---\<newline>\<newline>### '' @ [0x11F, 0x178, 0x178, 0xA1] @
     py '' Analysis of Comment #2: '' @ [0x22] @ py ''bad name'' @ [0x22] @ py ''\<newline>\<newline>'' @
     py ''**'' @ [0xE2, 0x153, 0xA8] @ py '' Positive Rephrasing:**\<newline>'' @
     py ''Let's look at improving this aspect: bad name\<newline>\<newline>'' @
     py ''**'' @ [0x11F, 0x178, 0x201C, 0x161] @ py '' The 'Why':**\<newline>'' @
     py ''This change will improve code quality.\<newline>\<newline>'' @
     py ''**'' @ [0x11F, 0x178, 0x201D, 0xA7] @ py '' Suggested Improvement:**\<newline>```python\<newline>'' @
     py ''# See suggested improvement in code\<newline>```\<newline>\<newline>''"
    by (simp add: str_of_nat_def eval_nat_numeral)
  from pr n f s show ?thesis by blast
qed

text \<open>
  Claim C5. The code at the failing input: the same snippet and comments, with a summary
  generator that raises. The handler logs the exception and binds nothing, and the read
  of \<^verbatim>\<open>summary\<close> in the call of \<^verbatim>\<open>generate_markdown_report\<close> raises \<^verbatim>\<open>UnboundLocalError\<close>:
  \<open>process_review\<close> returns no report.
\<close>

theorem process_review_summary_failure:
  "process_review reviewer_no_summary findall_import_os input_three = Inl UnboundLocalError"
  by (simp add: process_review_eq reviewer_no_summary_def EmpatheticCodeReviewer_init_def
      input_three_def detect_language_import_os analyzer_no_summary_def)

section \<open>The order of the sections, the resources, the records\<close>

lemma sort_rank_cases:
  "sort_rank x =
     (if get_severity x = py ''HIGH'' then 0 else if get_severity x = py ''LOW'' then 2 else 1)"
  by (simp add: sort_rank_def dict_get_def severity_order_def)

text \<open>
  Claim C6. The report renders the sections in the order of the list sorted by severity
  rank. The rank of a comment is 0 for \<^verbatim>\<open>HIGH\<close>, 2 for \<^verbatim>\<open>LOW\<close>, and 1 for \<^verbatim>\<open>MEDIUM\<close> and
  for every other label, a missing one included. The sorted list is in ascending order
  of rank, and the comments of one rank stand in it in their original relative order.
\<close>

theorem report_sorted_by_severity:
  "fst (generate_markdown_report code comments summary language) =
     report_head code language @
     concat (feedback_sections language
               (snd (generate_markdown_report code comments summary language))) @
     report_tail summary \<and>
   sorted (map sort_rank (snd (generate_markdown_report code comments summary language))) \<and>
   (\<forall>k. filter (\<lambda>x. sort_rank x = k)
          (snd (generate_markdown_report code comments summary language)) =
        filter (\<lambda>x. sort_rank x = k) comments) \<and>
   (\<forall>x. sort_rank x =
        (if get_severity x = py ''HIGH'' then 0
         else if get_severity x = py ''LOW'' then 2 else 1)) \<and>
   (\<forall>x. get_severity x = (case severity x of None \<Rightarrow> py ''MEDIUM'' | Some s \<Rightarrow> s))"
proof (intro conjI allI)
  show "fst (generate_markdown_report code comments summary language) =
     report_head code language @
     concat (feedback_sections language
               (snd (generate_markdown_report code comments summary language))) @
     report_tail summary"
    by (simp add: generate_markdown_report_parts)
  show "sorted (map sort_rank (snd (generate_markdown_report code comments summary language)))"
    by (simp add: generate_markdown_report_parts)
  show "filter (\<lambda>x. sort_rank x = k)
          (snd (generate_markdown_report code comments summary language)) =
        filter (\<lambda>x. sort_rank x = k) comments" for k
    by (simp only: generate_markdown_report_parts snd_conv sort_key_stable)
  show "sort_rank x =
        (if get_severity x = py ''HIGH'' then 0
         else if get_severity x = py ''LOW'' then 2 else 1)" for x
    by (rule sort_rank_cases)
  show "get_severity x = (case severity x of None \<Rightarrow> py ''MEDIUM'' | Some s \<Rightarrow> s)" for x
    by (simp add: get_severity_def)
qed

lemma sorted_four:
  "snd (generate_markdown_report code four_comments summary language) =
     [bare_comment (py ''HIGH'') (py ''b''), bare_comment (py ''HIGH'') (py ''d''),
      bare_comment (py ''MEDIUM'') (py ''c''), bare_comment (py ''LOW'') (py ''a'')]"
  by (simp add: generate_markdown_report_parts four_comments_def sort_rank_cases
      get_severity_def bare_comment_def)

theorem report_sorted_by_severity_witness:
  "map get_severity (snd (generate_markdown_report import_os four_comments [] (py ''Python''))) =
     [py ''HIGH'', py ''HIGH'', py ''MEDIUM'', py ''LOW''] \<and>
   map original (snd (generate_markdown_report import_os four_comments [] (py ''Python''))) =
     [py ''b'', py ''d'', py ''c'', py ''a''] \<and>
   sorted (map sort_rank
             (snd (generate_markdown_report import_os four_comments [] (py ''Python'')))) \<and>
   filter (\<lambda>x. sort_rank x = 0)
     (snd (generate_markdown_report import_os four_comments [] (py ''Python''))) =
     [bare_comment (py ''HIGH'') (py ''b''), bare_comment (py ''HIGH'') (py ''d'')] \<and>
   sort_rank (bare_comment (py ''CRITICAL'') (py ''e'')) = 1"
proof -
  have f: "filter (\<lambda>x. sort_rank x = 0) four_comments =
      [bare_comment (py ''HIGH'') (py ''b''), bare_comment (py ''HIGH'') (py ''d'')]"
    by (simp add: four_comments_def sort_rank_cases get_severity_def bare_comment_def)
  have g: "get_severity (bare_comment (py ''CRITICAL'') (py ''e'')) = py ''CRITICAL''"
    by (simp add: get_severity_def bare_comment_def)
  have s: "map get_severity
             (snd (generate_markdown_report import_os four_comments [] (py ''Python''))) =
             [py ''HIGH'', py ''HIGH'', py ''MEDIUM'', py ''LOW''] \<and>
           map original
             (snd (generate_markdown_report import_os four_comments [] (py ''Python''))) =
             [py ''b'', py ''d'', py ''c'', py ''a'']"
    by (simp add: sorted_four get_severity_def bare_comment_def)
  note t = report_sorted_by_severity[of import_os four_comments "[]" "py ''Python''"]
  from t have so: "sorted (map sort_rank
             (snd (generate_markdown_report import_os four_comments [] (py ''Python''))))"
    by blast
  from t have "filter (\<lambda>x. sort_rank x = 0)
       (snd (generate_markdown_report import_os four_comments [] (py ''Python''))) =
     filter (\<lambda>x. sort_rank x = 0) four_comments"
    by blast
  then have fi: "filter (\<lambda>x. sort_rank x = 0)
       (snd (generate_markdown_report import_os four_comments [] (py ''Python''))) =
     [bare_comment (py ''HIGH'') (py ''b''), bare_comment (py ''HIGH'') (py ''d'')]"
    using f by (rule trans)
  from t have "sort_rank (bare_comment (py ''CRITICAL'') (py ''e'')) =
        (if get_severity (bare_comment (py ''CRITICAL'') (py ''e'')) = py ''HIGH'' then 0
         else if get_severity (bare_comment (py ''CRITICAL'') (py ''e'')) = py ''LOW'' then 2
         else 1)"
    by blast
  with g have r: "sort_rank (bare_comment (py ''CRITICAL'') (py ''e'')) = 1"
    by simp
  from s so fi r show ?thesis by blast
qed

text \<open>
  Claim C9. The list that \<open>generate_markdown_report\<close> leaves behind is a rearrangement
  of the list it was given: the same records, each as often as before, so every field of
  every record is as it was.
\<close>

theorem render_only_reorders:
  "mset (snd (generate_markdown_report code comments summary language)) = mset comments \<and>
   set (snd (generate_markdown_report code comments summary language)) = set comments \<and>
   length (snd (generate_markdown_report code comments summary language)) = length comments"
  by (simp add: generate_markdown_report_parts)

theorem render_only_reorders_witness:
  "snd (generate_markdown_report import_os four_comments [] (py ''Python'')) =
     [bare_comment (py ''HIGH'') (py ''b''), bare_comment (py ''HIGH'') (py ''d''),
      bare_comment (py ''MEDIUM'') (py ''c''), bare_comment (py ''LOW'') (py ''a'')] \<and>
   mset (snd (generate_markdown_report import_os four_comments [] (py ''Python''))) =
     mset four_comments \<and>
   length (snd (generate_markdown_report import_os four_comments [] (py ''Python''))) = 4"
proof -
  have "length four_comments = 4" by (simp add: four_comments_def)
  with render_only_reorders[of import_os four_comments "[]" "py ''Python''"] sorted_four
  show ?thesis by simp
qed

text \<open>
  Claim C7, as amended. The lines of the loop body that handle the resources raise
  nothing and extend the report as follows. With the key \<^verbatim>\<open>resources\<close> missing, or its
  value \<^verbatim>\<open>None\<close>, the empty string or the empty list, they add nothing. With a string that
  is not empty they add the header of the learning resources, one bullet for each line of
  the string (split at newlines) whose trimmed text is not empty, holding the trimmed
  text, and a newline; a line of whitespace only gives no bullet. With a list that is not
  empty they add the header, one bullet for each item whose trimmed text is not empty,
  holding the trimmed text, and a newline. The section of a comment is its section
  without resources, followed by that.
\<close>

theorem resources_subsection:
  "(resources x = None \<or> resources x = Some ResNone \<or> resources x = Some (ResStr []) \<or>
    resources x = Some (ResList []) \<longrightarrow> add_resources x report = report) \<and>
   (\<forall>s. resources x = Some (ResStr s) \<and> s \<noteq> [] \<longrightarrow>
      add_resources x report =
        report @ resources_header @
        concat (map (\<lambda>line. py ''- '' @ strip line @ py ''\<newline>'')
                  (filter (\<lambda>line. strip line \<noteq> []) (split 10 s))) @
        py ''\<newline>'') \<and>
   (\<forall>rs. resources x = Some (ResList rs) \<and> rs \<noteq> [] \<longrightarrow>
      add_resources x report =
        report @ resources_header @
        concat (map (\<lambda>item. py ''- '' @ strip item @ py ''\<newline>'')
                  (filter (\<lambda>item. strip item \<noteq> []) rs)) @
        py ''\<newline>'') \<and>
   comment_section code_lang i x =
     add_resources x (comment_section code_lang i (x\<lparr>resources := None\<rparr>))"
proof (intro conjI allI impI)
  assume "resources x = None \<or> resources x = Some ResNone \<or> resources x = Some (ResStr []) \<or>
    resources x = Some (ResList [])"
  then show "add_resources x report = report"
    by (auto simp: add_resources_eq get_resources_def)
next
  fix s assume "resources x = Some (ResStr s) \<and> s \<noteq> []"
  then show "add_resources x report =
        report @ resources_header @
        concat (map (\<lambda>line. py ''- '' @ strip line @ py ''\<newline>'')
                  (filter (\<lambda>line. strip line \<noteq> []) (split 10 s))) @
        py ''\<newline>''"
    using bullets_def[of "split 10 s"] by (simp add: add_resources_eq get_resources_def)
next
  fix rs assume "resources x = Some (ResList rs) \<and> rs \<noteq> []"
  then show "add_resources x report =
        report @ resources_header @
        concat (map (\<lambda>item. py ''- '' @ strip item @ py ''\<newline>'')
                  (filter (\<lambda>item. strip item \<noteq> []) rs)) @
        py ''\<newline>''"
    using bullets_def[of rs] by (simp add: add_resources_eq get_resources_def)
next
  show "comment_section code_lang i x =
     add_resources x (comment_section code_lang i (x\<lparr>resources := None\<rparr>))"
    by (simp add: comment_section_def add_comment_def Let_def add_resources_eq
        get_resources_def get_severity_def)
qed

theorem resources_subsection_witness:
  "add_resources (bare_comment (py ''LOW'') (py ''a'')) (py ''report'') = py ''report'' \<and>
   add_resources
     ((bare_comment (py ''LOW'') (py ''a''))
        \<lparr>resources := Some (ResStr (py ''docs\<newline> \<newline> pep8 ''))\<rparr>) [] =
     resources_header @ py ''- docs\<newline>- pep8\<newline>\<newline>'' \<and>
   add_resources
     ((bare_comment (py ''LOW'') (py ''a''))
        \<lparr>resources := Some (ResList [py '' x '', [], py '' '', py ''y''])\<rparr>) [] =
     resources_header @ py ''- x\<newline>- y\<newline>\<newline>''"
proof -
  let ?x = "bare_comment (py ''LOW'') (py ''a'')"
  have a: "resources ?x = None" by (simp add: bare_comment_def)
  have b: "resources (?x\<lparr>resources := Some (ResStr (py ''docs\<newline> \<newline> pep8 ''))\<rparr>) =
             Some (ResStr (py ''docs\<newline> \<newline> pep8 '')) \<and> py ''docs\<newline> \<newline> pep8 '' \<noteq> []"
    by simp
  have c: "resources (?x\<lparr>resources := Some (ResList [py '' x '', [], py '' '', py ''y''])\<rparr>) =
             Some (ResList [py '' x '', [], py '' '', py ''y'']) \<and>
           [py '' x '', [], py '' '', py ''y''] \<noteq> []"
    by simp
  from resources_subsection[of ?x "py ''report''"] a
  have 1: "add_resources ?x (py ''report'') = py ''report''" by blast
  from resources_subsection[of
      "?x\<lparr>resources := Some (ResStr (py ''docs\<newline> \<newline> pep8 ''))\<rparr>" "[]"] b
  have 2: "add_resources (?x\<lparr>resources := Some (ResStr (py ''docs\<newline> \<newline> pep8 ''))\<rparr>) [] =
      resources_header @
      concat (map (\<lambda>line. py ''- '' @ strip line @ py ''\<newline>'')
                (filter (\<lambda>line. strip line \<noteq> []) (split 10 (py ''docs\<newline> \<newline> pep8 '')))) @
      py ''\<newline>''"
    by (metis append_Nil)
  from resources_subsection[of
      "?x\<lparr>resources := Some (ResList [py '' x '', [], py '' '', py ''y''])\<rparr>" "[]"] c
  have 3: "add_resources (?x\<lparr>resources := Some (ResList [py '' x '', [], py '' '', py ''y''])\<rparr>) [] =
      resources_header @
      concat (map (\<lambda>item. py ''- '' @ strip item @ py ''\<newline>'')
                (filter (\<lambda>item. strip item \<noteq> []) [py '' x '', [], py '' '', py ''y''])) @
      py ''\<newline>''"
    by (metis append_Nil)
  have s1: "strip (py ''docs'') = py ''docs''" "strip (py '' '') = []"
    "strip (py '' pep8 '') = py ''pep8''" "strip (py '' x '') = py ''x''"
    "strip (py ''y'') = py ''y''"
    by (simp_all add: strip_def isspace_def)
  have sp: "split 10 (py ''docs\<newline> \<newline> pep8 '') = [py ''docs'', py '' '', py '' pep8 '']"
    by simp
  from 1 2 3 s1 sp show ?thesis by simp
qed

text \<open>
  The claim as it was stated fails for a string with a line of whitespace: three lines,
  none of them empty, and two bullets.
\<close>

theorem resources_subsection_counterexample:
  "split 10 (py ''docs\<newline> \<newline>pep8'') = [py ''docs'', py '' '', py ''pep8''] \<and>
   py ''docs'' \<noteq> [] \<and> py '' '' \<noteq> [] \<and> py ''pep8'' \<noteq> [] \<and>
   add_resources
     ((bare_comment (py ''LOW'') (py ''a''))
        \<lparr>resources := Some (ResStr (py ''docs\<newline> \<newline>pep8''))\<rparr>) [] =
     resources_header @ py ''- docs\<newline>- pep8\<newline>\<newline>''"
  by (simp add: add_resources_def get_resources_def resources_header_def strip_def
      isspace_def Let_def)

section \<open>Reading the code back from the report\<close>

lemma split_not_Nil [simp]: "split sep xs \<noteq> []"
  by (induction xs) (auto split: list.splits)

lemma split_append_sep: "split sep (xs @ sep # ys) = split sep xs @ split sep ys"
proof (induction xs)
  case Nil
  show ?case by simp
next
  case (Cons c cs)
  obtain l ls where "split sep cs = l # ls"
    using split_not_Nil[of sep cs] by (cases "split sep cs") auto
  with Cons show ?case by simp
qed

lemma split_no_sep: "sep \<notin> set xs \<Longrightarrow> split sep xs = [xs]"
  by (induction xs) auto

lemma join_Cons_Cons: "join sep ((c # l) # ls) = c # join sep (l # ls)"
  by (cases ls) simp_all

lemma join_split: "join [sep] (split sep xs) = xs"
proof (induction xs)
  case Nil
  show ?case by simp
next
  case (Cons c cs)
  obtain l ls where s: "split sep cs = l # ls"
    using split_not_Nil[of sep cs] by (cases "split sep cs") auto
  with Cons show ?case by (simp add: join_Cons_Cons)
qed

lemma first_fenced_block_between:
  assumes a: "\<forall>l\<in>set (split 10 A). \<not> is_fence l"
    and f: "is_fence F" and nf: "10 \<notin> set F"
    and c: "\<forall>l\<in>set (split 10 code). \<not> is_fence l"
  shows "first_fenced_block (A @ 10 # F @ 10 # code @ 10 # py ''```'' @ 10 # rest) = Some code"
proof -
  have close: "is_fence (py ''```'')" by (simp add: is_fence_def)
  have lines: "split 10 (A @ 10 # F @ 10 # code @ 10 # py ''```'' @ 10 # rest) =
      split 10 A @ F # split 10 code @ py ''```'' # split 10 rest"
    using split_append_sep[of 10 A "F @ 10 # code @ 10 # py ''```'' @ 10 # rest"]
      split_append_sep[of 10 F "code @ 10 # py ''```'' @ 10 # rest"]
      split_append_sep[of 10 code "py ''```'' @ 10 # rest"]
      split_append_sep[of 10 "py ''```''" rest]
      split_no_sep[OF nf] split_no_sep[of 10 "py ''```''"]
    by simp
  have d: "dropWhile (\<lambda>line. \<not> is_fence line)
             (split 10 A @ F # split 10 code @ py ''```'' # split 10 rest) =
           F # split 10 code @ py ''```'' # split 10 rest"
    using a f by (simp add: dropWhile_append3)
  have t: "takeWhile (\<lambda>line. \<not> is_fence line) (split 10 code @ py ''```'' # split 10 rest) =
           split 10 code"
    using c close by (simp add: takeWhile_append2)
  have e: "list_ex is_fence (split 10 code @ py ''```'' # split 10 rest)"
    using close by (simp add: list_ex_iff)
  have j: "join (py ''\<newline>'') (split 10 code) = code"
    using join_split[of 10 code] by simp
  show ?thesis
    unfolding first_fenced_block_def lines d using t e j by simp
qed

lemma code_lang_no_newline: "10 \<notin> set (dict_get lang_map language (py ''text''))"
  by (simp add: dict_get_def lang_map_def)

text \<open>
  Two inputs with one report. With no comments, the snippet \<^verbatim>\<open>a\<close> with a summary that
  holds a closing fence and the headings that follow it, and the snippet that holds that
  fence and those headings with the summary \<^verbatim>\<open>c\<close>, are rendered to the same text: no
  reader of reports, however it is written, gives back the snippet of both.
\<close>

lemma report_not_injective:
  "fst (generate_markdown_report (py ''a'') [] (py ''b'' @ fence_and_headings @ py ''c'')
          (py ''Python'')) =
   fst (generate_markdown_report (py ''a'' @ fence_and_headings @ py ''b'') [] (py ''c'')
          (py ''Python'')) \<and>
   py ''a'' \<noteq> py ''a'' @ fence_and_headings @ py ''b''"
  by (simp add: generate_markdown_report_def fence_and_headings_def Let_def)

text \<open>
  Claim C8, as amended. For every snippet none of whose lines starts with three
  backquotes, and every language name that holds no newline, reading the first fenced
  block of the rendered report gives back the snippet, code point for code point,
  whatever the comments and the summary.
\<close>

theorem code_fence_round_trip:
  assumes "\<forall>l\<in>set (split 10 code). \<not> is_fence l" and "10 \<notin> set language"
  shows "first_fenced_block (fst (generate_markdown_report code comments summary language)) =
           Some code"
proof -
  let ?A = "py ''# '' @ [0x11F, 0x178, 0x152, 0x178] @
            py '' Code Review Feedback Report\<newline>\<newline>'' @
            py ''**Programming Language Detected:** '' @ language @ py ''\<newline>\<newline>'' @
            py ''## '' @ [0x11F, 0x178, 0x201C] @ py '' Original Code\<newline>''"
  let ?F = "py ''```'' @ dict_get lang_map language (py ''text'')"
  let ?rest = "py ''\<newline>## '' @ [0x11F, 0x178, 0x2019, 0xA1] @
               py '' Detailed Feedback\<newline>\<newline>'' @
               concat (feedback_sections language (sort_key sort_rank comments)) @
               report_tail summary"
  have r: "fst (generate_markdown_report code comments summary language) =
           ?A @ 10 # ?F @ 10 # code @ 10 # py ''```'' @ 10 # ?rest"
    by (simp add: generate_markdown_report_parts report_head_def)
  have a: "\<forall>l\<in>set (split 10 ?A). \<not> is_fence l"
    using assms(2) split_append_sep[of 10 language] split_no_sep[of 10 language]
    by (simp add: is_fence_def)
  have f: "is_fence ?F" by (simp add: is_fence_def)
  have nf: "10 \<notin> set ?F" using code_lang_no_newline[of language] by simp
  show ?thesis
    unfolding r by (rule first_fenced_block_between[OF a f nf assms(1)])
qed

theorem code_fence_round_trip_witness:
  "split 10 (py ''x = 1\<newline>y = 2'') = [py ''x = 1'', py ''y = 2''] \<and>
   \<not> is_fence (py ''x = 1'') \<and> \<not> is_fence (py ''y = 2'') \<and>
   10 \<notin> set (py ''Python'') \<and>
   first_fenced_block
     (fst (generate_markdown_report (py ''x = 1\<newline>y = 2'') four_comments (py ''Well done.'')
             (py ''Python''))) =
     Some (py ''x = 1\<newline>y = 2'')"
proof -
  have s: "split 10 (py ''x = 1\<newline>y = 2'') = [py ''x = 1'', py ''y = 2'']" by simp
  have n: "\<not> is_fence (py ''x = 1'')" "\<not> is_fence (py ''y = 2'')"
    by (simp_all add: is_fence_def)
  have c: "\<forall>l\<in>set (split 10 (py ''x = 1\<newline>y = 2'')). \<not> is_fence l"
    using n by (simp only: s) simp
  have l: "10 \<notin> set (py ''Python'')" by simp
  from code_fence_round_trip[OF c l, of four_comments "py ''Well done.''"] s n l
  show ?thesis by blast
qed

text \<open>
  The claim as it was stated fails for a snippet with a line of three backquotes: the
  block read back from the report ends at that line.
\<close>

theorem code_fence_round_trip_counterexample:
  "first_fenced_block
     (fst (generate_markdown_report (py ''a\<newline>```\<newline>b'') [] (py ''s'') (py ''Python''))) =
     Some (py ''a'') \<and>
   first_fenced_block
     (fst (generate_markdown_report (py ''a\<newline>```\<newline>b'') [] (py ''s'') (py ''Python''))) \<noteq>
     Some (py ''a\<newline>```\<newline>b'')"
  by (simp add: generate_markdown_report_def Let_def first_fenced_block_def is_fence_def
      dict_get_def lang_map_def)

end
